theory Spec2Isabelle
  imports Main
begin

section \<open>Tokens, the character source and diagnostics\<close>

text \<open>
  \<^verbatim>\<open>Token(code, value)\<close>: the scanner builds tokens from a code (a Python string) and
  a value that is \<^verbatim>\<open>None\<close> for reserved words and operators. The parser reads the
  attribute \<^verbatim>\<open>code\<close> only.
\<close>

datatype token = Token (code: string) (lexeme: "string option")

text \<open>
  Messages are Python strings built by concatenation. The class \<^verbatim>\<open>Token\<close> is not
  among the sources, so the text \<^verbatim>\<open>str(token)\<close> is kept as a fragment of its own:
  a message is the list of its fragments in order.
\<close>

datatype fragment = Text string | Str token

type_synonym message = "fragment list"

text \<open>
  Modelled from the spec: the character source Chario is not among the sources. It is
  a cursor over the input with a non-consuming peek that yields the marker
  \<^verbatim>\<open>"EOF"\<close> at the end (the scanner compares against that string), a consume
  operation, and a diagnostic sink that does not alter the cursor. Characters are
  code points below 256. Consuming at the end of the input is left undefined by the
  spec and is never done by the scanner; here it yields the marker and changes nothing.
\<close>

record chario =
  input :: string
  messages :: "message list"

definition PeekNextChar :: "chario \<Rightarrow> string" where
  "PeekNextChar c = (case input c of [] \<Rightarrow> ''EOF'' | x # _ \<Rightarrow> [x])"

definition GetNextChar :: "chario \<Rightarrow> string \<times> chario" where
  "GetNextChar c = (case input c of [] \<Rightarrow> (''EOF'', c) | x # xs \<Rightarrow> ([x], c\<lparr>input := xs\<rparr>))"

definition PrintErrorMessage :: "message \<Rightarrow> chario \<Rightarrow> chario" where
  "PrintErrorMessage m c = c\<lparr>messages := messages c @ [m]\<rparr>"

text \<open>Python exceptions: the two source files raise \<^verbatim>\<open>RuntimeError\<close> only.\<close>

datatype exn = RuntimeError message

datatype 'a scanned = Return 'a chario | Raise exn chario

text \<open>
  \<^verbatim>\<open>str.isalpha\<close> and \<^verbatim>\<open>str.isdigit\<close> on code points below 256: true when the
  string is not empty and every character is a letter (a digit). Besides the ASCII
  ranges, Latin-1 has the letters 170, 181, 186, 192 to 214, 216 to 246, 248 to 255
  and the digits 178, 179, 185 (superscripts).
\<close>

definition char_isalpha :: "char \<Rightarrow> bool" where
  "char_isalpha ch =
     (let k = (of_char ch :: nat)
      in (65 \<le> k \<and> k \<le> 90) \<or> (97 \<le> k \<and> k \<le> 122) \<or> k = 170 \<or> k = 181 \<or> k = 186
         \<or> (192 \<le> k \<and> k \<le> 214) \<or> (216 \<le> k \<and> k \<le> 246) \<or> (248 \<le> k \<and> k \<le> 255))"

definition char_isdigit :: "char \<Rightarrow> bool" where
  "char_isdigit ch =
     (let k = (of_char ch :: nat)
      in (48 \<le> k \<and> k \<le> 57) \<or> k = 178 \<or> k = 179 \<or> k = 185)"

definition isalpha :: "string \<Rightarrow> bool" where
  "isalpha s = (s \<noteq> [] \<and> list_all char_isalpha s)"

definition isdigit :: "string \<Rightarrow> bool" where
  "isdigit s = (s \<noteq> [] \<and> list_all char_isdigit s)"

section \<open>Token categories\<close>

text \<open>
  Modelled from the spec: the module \<^verbatim>\<open>consts\<close> with the class \<^verbatim>\<open>Token\<close>, its
  category constants and the category tables is not among the sources. The scanner
  fixes most of the codes: a reserved word is the token whose code is its spelling, an
  operator is the token whose code is its text, and identifiers, integers and the end of
  input have the codes \<^verbatim>\<open>"id"\<close>, \<^verbatim>\<open>"int"\<close> and \<^verbatim>\<open>"EOF"\<close>. The newline and
  string-literal categories are never built by the scanner; the spec lists them as
  categories of their own.
\<close>

definition Token_NEWLINE :: string where "Token_NEWLINE = [CHR 0x0A]"
definition Token_ID :: string where "Token_ID = ''id''"
definition Token_numericalLiteral :: string where "Token_numericalLiteral = ''int''"
definition Token_stringLiteral :: string where "Token_stringLiteral = ''string''"
definition Token_IS :: string where "Token_IS = ''is''"
definition Token_BEGIN :: string where "Token_BEGIN = ''begin''"
definition Token_END :: string where "Token_END = ''end''"
definition Token_IF :: string where "Token_IF = ''if''"
definition Token_WHILE :: string where "Token_WHILE = ''while''"
definition Token_LOOP :: string where "Token_LOOP = ''loop''"
definition Token_PROC :: string where "Token_PROC = ''procedure''"
definition Token_TYPE :: string where "Token_TYPE = ''type''"
definition Token_RANGE :: string where "Token_RANGE = ''range''"
definition Token_ARRAY :: string where "Token_ARRAY = ''array''"
definition Token_OF :: string where "Token_OF = ''of''"
definition Token_CONSTANT :: string where "Token_CONSTANT = ''constant''"
definition Token_IN :: string where "Token_IN = ''in''"
definition Token_OUT :: string where "Token_OUT = ''out''"
definition Token_NOT :: string where "Token_NOT = ''not''"
definition Token_AND :: string where "Token_AND = ''and''"
definition Token_OR :: string where "Token_OR = ''or''"
definition Token_NULL :: string where "Token_NULL = ''null''"
definition Token_EXIT :: string where "Token_EXIT = ''exit''"
definition Token_WHEN :: string where "Token_WHEN = ''when''"
definition Token_THEN :: string where "Token_THEN = ''then''"
definition Token_ELSE :: string where "Token_ELSE = ''else''"
definition Token_ELSIF :: string where "Token_ELSIF = ''elsif''"
definition Token_SEMICOLON :: string where "Token_SEMICOLON = '';''"
definition Token_COLON :: string where "Token_COLON = '':''"
definition Token_COLON_EQ :: string where "Token_COLON_EQ = '':=''"
definition Token_COMMA :: string where "Token_COMMA = '',''"
definition Token_PARENTHESIS_OPEN :: string where "Token_PARENTHESIS_OPEN = ''(''"
definition Token_PARENTHESIS_CLOSE :: string where "Token_PARENTHESIS_CLOSE = '')''"
definition Token_DOT_DOT :: string where "Token_DOT_DOT = ''..''"
definition Token_SQUARE :: string where "Token_SQUARE = ''**''"

text \<open>
  Modelled from the spec: the category tables of \<^verbatim>\<open>consts\<close>. The declaration-start
  set is identifier, \<^verbatim>\<open>type\<close>, \<^verbatim>\<open>procedure\<close>; the reserved words are those the
  spec's data model lists.
\<close>

definition basicDeclarationHandles :: "string list" where
  "basicDeclarationHandles = [Token_ID, Token_TYPE, Token_PROC]"

definition relationalOperator :: "string list" where
  "relationalOperator = [''='', ''/='', ''<'', ''<='', ''>'', ''>='']"

definition addingOperator :: "string list" where
  "addingOperator = [''+'', ''-'']"

definition multiplyingOperator :: "string list" where
  "multiplyingOperator = [''*'', ''/'', ''mod'']"

definition reservedWords :: "string list" where
  "reservedWords =
     [''is'', ''begin'', ''end'', ''if'', ''while'', ''loop'', ''procedure'', ''type'',
      ''range'', ''array'', ''of'', ''constant'', ''in'', ''out'', ''not'', ''and'', ''or'',
      ''mod'', ''null'', ''exit'', ''when'', ''then'', ''else'', ''elsif'']"

section \<open>The scanner\<close>

subsection \<open>IntegerToken\<close>

function IntegerToken_loop :: "string \<Rightarrow> chario \<Rightarrow> string \<times> chario" where
  "IntegerToken_loop result c =
     (if isdigit (PeekNextChar c)
      then IntegerToken_loop (result @ fst (GetNextChar c)) (snd (GetNextChar c))
      else (result, c))"
  by pat_completeness auto
termination
  by (relation "measure (\<lambda>(result, c). length (input c))")
     (auto simp: PeekNextChar_def GetNextChar_def isdigit_def char_isdigit_def
           split: list.splits)

declare IntegerToken_loop.simps [simp del]

definition IntegerToken :: "chario \<Rightarrow> token scanned" where
  "IntegerToken c =
     (case IntegerToken_loop [] c of (result, c') \<Rightarrow> Return (Token ''int'' (Some result)) c')"

subsection \<open>AlphabeticToken\<close>

definition delimiters :: "string list" where
  "delimiters =
     ['' '', [CHR 0x0A], [CHR 0x0D], [CHR 0x09], [CHR 0x5C], '','', '':'', ''<'', ''>'',
      ''='', '';'', ''+'', ''-'', ''*'', ''/'', ''('', '')'', ''EOF'']"

function AlphabeticToken_loop :: "string \<Rightarrow> chario \<Rightarrow> string \<times> chario" where
  "AlphabeticToken_loop result c =
     (if PeekNextChar c \<notin> set delimiters
      then AlphabeticToken_loop (result @ fst (GetNextChar c)) (snd (GetNextChar c))
      else (result, c))"
  by pat_completeness auto
termination
  by (relation "measure (\<lambda>(result, c). length (input c))")
     (auto simp: PeekNextChar_def GetNextChar_def delimiters_def split: list.splits)

declare AlphabeticToken_loop.simps [simp del]

definition AlphabeticToken :: "chario \<Rightarrow> token scanned" where
  "AlphabeticToken c =
     (case AlphabeticToken_loop [] c of
        (result, c') \<Rightarrow>
          if result \<in> set reservedWords then Return (Token result None) c'
          else Return (Token ''id'' (Some result)) c')"

subsection \<open>OperatorToken\<close>

definition singleCharOperators :: "string list" where
  "singleCharOperators = [''+'', ''-'', '';'', ''('', '')'', '','']"

definition possiblyDoubleCharOperators :: "string list" where
  "possiblyDoubleCharOperators = [''/'', '':'', ''>'', ''<'', ''*'']"

definition doubleCharOperators :: "string list" where
  "doubleCharOperators = [''/='', '':='', ''<='', ''>='', ''**'']"

definition OperatorToken :: "chario \<Rightarrow> token scanned" where
  "OperatorToken c =
     (case GetNextChar c of
        (firstChar, c1) \<Rightarrow>
          if firstChar = ''.'' \<and> PeekNextChar c1 = ''.''
          then Return (Token ''..'' None) (snd (GetNextChar c1))
          else if firstChar \<in> set singleCharOperators then Return (Token firstChar None) c1
          else if firstChar \<in> set possiblyDoubleCharOperators
          then (let candidate = firstChar @ PeekNextChar c1
                in if candidate \<in> set doubleCharOperators
                   then (case GetNextChar c1 of
                           (secondChar, c2) \<Rightarrow> Return (Token (firstChar @ secondChar) None) c2)
                   else Return (Token firstChar None) c1)
          else Raise (RuntimeError [Text ''Unexpected symbol''])
                 (PrintErrorMessage
                    [Text (''Unexpected symbol '' @ [CHR 0x27] @ firstChar @ [CHR 0x27])] c1))"

subsection \<open>GetNextToken\<close>

definition ignoredCharacters :: "string list" where
  "ignoredCharacters = ['' '', [CHR 0x0A], [CHR 0x0D], [CHR 0x09], [CHR 0x5C]]"

text \<open>
  The \<^verbatim>\<open>while True\<close> loop is the recursion: an ignored character is consumed and the
  loop goes round; \<^verbatim>\<open>"EOF"\<close> returns from inside the loop; any other character
  breaks out to the dispatch on its class.
\<close>

function GetNextToken :: "chario \<Rightarrow> token scanned" where
  "GetNextToken c =
     (let nextChar = PeekNextChar c
      in if nextChar = ''EOF'' then Return (Token ''EOF'' None) c
         else if nextChar \<in> set ignoredCharacters then GetNextToken (snd (GetNextChar c))
         else (let nextChar = PeekNextChar c
               in if isalpha nextChar then AlphabeticToken c
                  else if isdigit nextChar then IntegerToken c
                  else OperatorToken c))"
  by pat_completeness auto
termination
  by (relation "measure (\<lambda>c. length (input c))")
     (auto simp: PeekNextChar_def GetNextChar_def split: list.splits)

declare GetNextToken.simps [simp del]

section \<open>The parser: state, outcomes and control flow\<close>

text \<open>
  The parser holds the lookahead token; it and its scanner share one Chario object.
  \<^verbatim>\<open>print\<close> writes to standard output, which is kept apart from Chario's sink.
\<close>

record parser =
  chario :: chario
  token :: token
  stdout :: "message list"

text \<open>
  A call either returns, raises, or has not finished when the fuel is used up; the
  outcome then holds the state reached at that point. Every loop iteration and every
  call inside a group of mutually recursive rules spends one unit of fuel; a call that
  is out of fuel for every amount of fuel does not terminate.
\<close>

datatype 'a outcome = Returns 'a parser | Raises exn parser | OutOfFuel parser

type_synonym routine = "parser \<Rightarrow> unit outcome"

text \<open>Statements in sequence: the first that raises (or runs out of fuel) ends the block.\<close>

fun run :: "routine list \<Rightarrow> routine" where
  "run [] s = Returns () s"
| "run (p # ps) s =
     (case p s of
        Returns u s' \<Rightarrow> run ps s'
      | Raises e s' \<Rightarrow> Raises e s'
      | OutOfFuel s' \<Rightarrow> OutOfFuel s')"

definition pass :: routine where
  "pass s = Returns () s"

text \<open>
  \<^verbatim>\<open>try: body except RuntimeError: handler\<close>. The only exception of the model is
  \<^verbatim>\<open>RuntimeError\<close>, so the bare \<^verbatim>\<open>except:\<close> of \<^verbatim>\<open>statement\<close> is the same.
\<close>

fun try_except :: "unit outcome \<Rightarrow> routine \<Rightarrow> unit outcome" where
  "try_except (Returns u s) handler = Returns u s"
| "try_except (Raises e s) handler = handler s"
| "try_except (OutOfFuel s) handler = OutOfFuel s"

text \<open>The fuel ran out before the call returned or raised.\<close>

definition unfinished :: "'a outcome \<Rightarrow> bool" where
  "unfinished r = (case r of OutOfFuel s \<Rightarrow> True | Returns u s \<Rightarrow> False | Raises e s \<Rightarrow> False)"

definition print_line :: "message \<Rightarrow> routine" where
  "print_line m s = Returns () (s\<lparr>stdout := stdout s @ [m]\<rparr>)"

text \<open>
  \<^verbatim>\<open>self.token = self.scanner.GetNextToken()\<close>: when the scanner raises, the
  assignment does not happen, but Chario has moved on and holds the scanner's message.
\<close>

definition next_token :: routine where
  "next_token s =
     (case GetNextToken (chario s) of
        Return t c \<Rightarrow> Returns () (s\<lparr>chario := c, token := t\<rparr>)
      | Raise e c \<Rightarrow> Raises e (s\<lparr>chario := c\<rparr>))"

fun ignore_newlines :: "nat \<Rightarrow> routine" where
  "ignore_newlines 0 s = OutOfFuel s"
| "ignore_newlines (Suc n) s =
     (if code (token s) = Token_NEWLINE then run [next_token, ignore_newlines n] s
      else Returns () s)"

subsection \<open>discard\_tokens and fatalError\<close>

fun discard_tokens_loop :: "nat \<Rightarrow> message \<Rightarrow> parser \<Rightarrow> message outcome" where
  "discard_tokens_loop 0 message s = OutOfFuel s"
| "discard_tokens_loop (Suc n) message s =
     (if code (token s) \<noteq> Token_NEWLINE
      then (case next_token s of
              Returns u s' \<Rightarrow> discard_tokens_loop n (message @ [Str (token s), Text '' '']) s'
            | Raises e s' \<Rightarrow> Raises e s'
            | OutOfFuel s' \<Rightarrow> OutOfFuel s')
      else Returns message s)"

definition discard_tokens :: "nat \<Rightarrow> routine" where
  "discard_tokens n s =
     (let message = [Text ''trailing tokens: '', Str (token s), Text '' '']
      in case next_token s of
           Returns u s1 \<Rightarrow>
             (case discard_tokens_loop n message s1 of
                Returns message s2 \<Rightarrow>
                  (let message = message @ [Text ''were discarded'']
                   in run [ignore_newlines n, print_line message] s2)
              | Raises e s2 \<Rightarrow> Raises e s2
              | OutOfFuel s' \<Rightarrow> OutOfFuel s')
         | Raises e s1 \<Rightarrow> Raises e s1
         | OutOfFuel s' \<Rightarrow> OutOfFuel s')"

definition fatalError :: "nat \<Rightarrow> message \<Rightarrow> routine" where
  "fatalError n error_message s =
     (case discard_tokens n (s\<lparr>chario := PrintErrorMessage error_message (chario s)\<rparr>) of
        Returns u s' \<Rightarrow> Raises (RuntimeError (Text ''Fatal error: '' # error_message)) s'
      | Raises e s' \<Rightarrow> Raises e s'
      | OutOfFuel s' \<Rightarrow> OutOfFuel s')"

subsection \<open>accept\<close>

definition line_terminating_tokens :: "string list" where
  "line_terminating_tokens = [Token_IS, Token_LOOP, Token_SEMICOLON]"

text \<open>
  The parameter \<^verbatim>\<open>error_message\<close> is assigned before it is read, from the lookahead
  on entry.
\<close>

definition accept :: "nat \<Rightarrow> string \<Rightarrow> message \<Rightarrow> routine" where
  "accept n expected error_message s =
     (let error_message =
            [Text (''expected ['' @ expected @ ''] but ''), Str (token s), Text '' was detected'']
      in run
           [\<lambda>s. if code (token s) = Token_NEWLINE \<and> expected \<in> set line_terminating_tokens
                then fatalError n error_message s else pass s,
            ignore_newlines n,
            \<lambda>s. if code (token s) \<noteq> expected then fatalError n error_message s else pass s,
            next_token,
            \<lambda>s. if expected \<in> set line_terminating_tokens then ignore_newlines n s else pass s]
           s)"

text \<open>The callers' messages: \<^verbatim>\<open>"'" + code + "' expected"\<close> and plain texts.\<close>

definition quoted_expected :: "string \<Rightarrow> message" where
  "quoted_expected x = [Text ([CHR 0x27] @ x @ [CHR 0x27] @ '' expected'')]"

section \<open>The grammar rules\<close>

subsection \<open>Expressions and names\<close>

text \<open>
  Python's \<^verbatim>\<open>in\<close> compares with \<^verbatim>\<open>==\<close>. The loop of \<^verbatim>\<open>term\<close> tests the token
  object itself, not its code, against a table of codes: a Token, a value with a
  category and a lexeme, is not a string.
\<close>

datatype pyobj = PyStr string | PyToken token

fun expression :: "nat \<Rightarrow> routine"
  and expression_and_loop :: "nat \<Rightarrow> routine"
  and expression_or_loop :: "nat \<Rightarrow> routine"
  and relation :: "nat \<Rightarrow> routine"
  and simpleExpression :: "nat \<Rightarrow> routine"
  and simpleExpression_loop :: "nat \<Rightarrow> routine"
  and term_rule :: "nat \<Rightarrow> routine"
  and term_loop :: "nat \<Rightarrow> routine"
  and factor :: "nat \<Rightarrow> routine"
  and primary :: "nat \<Rightarrow> routine"
  and name :: "nat \<Rightarrow> routine"
  and indexedComponent :: "nat \<Rightarrow> routine"
  and indexedComponent_loop :: "nat \<Rightarrow> routine"
where
  "expression 0 s = OutOfFuel s"
| "expression (Suc n) s =
     run [\<lambda>s. relation n s,
          \<lambda>s. if code (token s) = Token_AND then expression_and_loop n s
               else if code (token s) = Token_OR then expression_or_loop n s
               else pass s] s"
| "expression_and_loop 0 s = OutOfFuel s"
| "expression_and_loop (Suc n) s =
     (if code (token s) = Token_AND
      then run [next_token, \<lambda>s. relation n s, \<lambda>s. expression_and_loop n s] s
      else pass s)"
| "expression_or_loop 0 s = OutOfFuel s"
| "expression_or_loop (Suc n) s =
     (if code (token s) = Token_OR
      then run [next_token, \<lambda>s. relation n s, \<lambda>s. expression_or_loop n s] s
      else pass s)"
| "relation 0 s = OutOfFuel s"
| "relation (Suc n) s =
     run [\<lambda>s. simpleExpression n s,
          \<lambda>s. if code (token s) \<in> set relationalOperator
               then run [next_token, \<lambda>s. simpleExpression n s] s
               else pass s] s"
| "simpleExpression 0 s = OutOfFuel s"
| "simpleExpression (Suc n) s =
     run [\<lambda>s. if code (token s) \<in> set addingOperator then next_token s else pass s,
          \<lambda>s. term_rule n s,
          \<lambda>s. simpleExpression_loop n s] s"
| "simpleExpression_loop 0 s = OutOfFuel s"
| "simpleExpression_loop (Suc n) s =
     (if code (token s) \<in> set addingOperator
      then run [next_token, \<lambda>s. term_rule n s, \<lambda>s. simpleExpression_loop n s] s
      else pass s)"
| "term_rule 0 s = OutOfFuel s"
| "term_rule (Suc n) s = run [\<lambda>s. factor n s, \<lambda>s. term_loop n s] s"
| "term_loop 0 s = OutOfFuel s"
| "term_loop (Suc n) s =
     (if PyToken (token s) \<in> set (map PyStr multiplyingOperator)
      then run [next_token, \<lambda>s. factor n s, \<lambda>s. term_loop n s] s
      else pass s)"
| "factor 0 s = OutOfFuel s"
| "factor (Suc n) s =
     (if code (token s) = Token_NOT
      then run [next_token, \<lambda>s. primary n s] s
      else run [\<lambda>s. primary n s,
                \<lambda>s. if code (token s) = Token_SQUARE
                     then run [next_token, \<lambda>s. primary n s] s
                     else pass s] s)"
| "primary 0 s = OutOfFuel s"
| "primary (Suc n) s =
     (if code (token s) \<in> set [Token_numericalLiteral, Token_stringLiteral] then next_token s
      else if code (token s) = Token_ID then name n s
      else if code (token s) = Token_PARENTHESIS_OPEN
      then run [next_token, \<lambda>s. expression n s,
                accept n Token_PARENTHESIS_CLOSE (quoted_expected '')'')] s
      else fatalError n
             [Text ''expected either a numeric literal, an identifier, or an opening parenthesis but '',
              Str (token s), Text '' was detected''] s)"
| "name 0 s = OutOfFuel s"
| "name (Suc n) s =
     run [accept n Token_ID [Text ''identifier expected''],
          \<lambda>s. if code (token s) = Token_PARENTHESIS_OPEN then indexedComponent n s
               else pass s] s"
| "indexedComponent 0 s = OutOfFuel s"
| "indexedComponent (Suc n) s =
     run [accept n Token_PARENTHESIS_OPEN (quoted_expected ''(''),
          \<lambda>s. expression n s,
          \<lambda>s. indexedComponent_loop n s,
          accept n Token_PARENTHESIS_CLOSE (quoted_expected '')'')] s"
| "indexedComponent_loop 0 s = OutOfFuel s"
| "indexedComponent_loop (Suc n) s =
     (if code (token s) = Token_COMMA
      then run [next_token, \<lambda>s. expression n s, \<lambda>s. indexedComponent_loop n s] s
      else pass s)"

subsection \<open>Declarations\<close>

fun identifierList_loop :: "nat \<Rightarrow> routine" where
  "identifierList_loop 0 s = OutOfFuel s"
| "identifierList_loop (Suc n) s =
     (if code (token s) = Token_COMMA
      then run [next_token, accept n Token_ID [Text ''identifier expected''],
                identifierList_loop n] s
      else pass s)"

definition identifierList :: "nat \<Rightarrow> routine" where
  "identifierList n = run [accept n Token_ID [Text ''identifier expected''], identifierList_loop n]"

definition range_rule :: "nat \<Rightarrow> routine" where
  "range_rule n =
     run [accept n Token_RANGE (quoted_expected Token_IS),
          simpleExpression n,
          accept n Token_DOT_DOT (quoted_expected Token_DOT_DOT),
          simpleExpression n]"

definition index :: "nat \<Rightarrow> routine" where
  "index n s =
     (if code (token s) = Token_RANGE then range_rule n s
      else if code (token s) = Token_ID then name n s
      else fatalError n [Text ''error in indexing''] s)"

definition enumerationTypeDefinition :: "nat \<Rightarrow> routine" where
  "enumerationTypeDefinition n =
     run [accept n Token_PARENTHESIS_OPEN (quoted_expected Token_PARENTHESIS_OPEN),
          identifierList n,
          accept n Token_PARENTHESIS_CLOSE (quoted_expected Token_PARENTHESIS_CLOSE)]"

fun arrayTypeDefinition_loop :: "nat \<Rightarrow> routine" where
  "arrayTypeDefinition_loop 0 s = OutOfFuel s"
| "arrayTypeDefinition_loop (Suc n) s =
     (if code (token s) = Token_COMMA
      then run [next_token, index n, arrayTypeDefinition_loop n] s
      else pass s)"

definition arrayTypeDefinition :: "nat \<Rightarrow> routine" where
  "arrayTypeDefinition n =
     run [accept n Token_ARRAY (quoted_expected Token_ARRAY),
          accept n Token_PARENTHESIS_OPEN (quoted_expected Token_PARENTHESIS_OPEN),
          index n,
          arrayTypeDefinition_loop n,
          accept n Token_PARENTHESIS_CLOSE (quoted_expected Token_PARENTHESIS_CLOSE),
          accept n Token_OF (quoted_expected Token_OF),
          name n]"

definition typeDefinition :: "nat \<Rightarrow> routine" where
  "typeDefinition n s =
     (if code (token s) = Token_PARENTHESIS_OPEN then enumerationTypeDefinition n s
      else if code (token s) = Token_ARRAY then arrayTypeDefinition n s
      else if code (token s) = Token_RANGE then range_rule n s
      else if code (token s) = Token_ID then name n s
      else fatalError n
             [Text ''expected either an opening parenthesis, an array, a range, or an identifier but '',
              Str (token s), Text '' was detected''] s)"

definition objectDeclaration :: "nat \<Rightarrow> routine" where
  "objectDeclaration n =
     run [typeDefinition n, accept n Token_SEMICOLON (quoted_expected Token_SEMICOLON)]"

definition numberDeclaration :: "nat \<Rightarrow> routine" where
  "numberDeclaration n =
     run [accept n Token_CONSTANT (quoted_expected ''constant''),
          accept n Token_COLON_EQ (quoted_expected Token_COLON_EQ),
          expression n,
          accept n Token_SEMICOLON (quoted_expected Token_SEMICOLON)]"

definition numberOrObjectDeclaration :: "nat \<Rightarrow> routine" where
  "numberOrObjectDeclaration n =
     run [identifierList n,
          accept n Token_COLON (quoted_expected Token_COLON),
          \<lambda>s. if code (token s) = Token_CONSTANT then numberDeclaration n s
               else objectDeclaration n s]"

definition typeDeclaration :: "nat \<Rightarrow> routine" where
  "typeDeclaration n =
     run [accept n Token_TYPE (quoted_expected Token_TYPE),
          accept n Token_ID [Text ''identifier expected''],
          accept n Token_IS (quoted_expected Token_IS),
          typeDefinition n,
          accept n Token_SEMICOLON (quoted_expected Token_SEMICOLON)]"

subsection \<open>Subprogram specifications\<close>

definition mode :: routine where
  "mode =
     run [\<lambda>s. if code (token s) = Token_IN then next_token s else pass s,
          \<lambda>s. if code (token s) = Token_OUT then next_token s else pass s]"

definition parameterSpecification :: "nat \<Rightarrow> routine" where
  "parameterSpecification n =
     run [identifierList n, accept n Token_COLON (quoted_expected Token_COLON), mode, name n]"

fun formalPart_loop :: "nat \<Rightarrow> routine" where
  "formalPart_loop 0 s = OutOfFuel s"
| "formalPart_loop (Suc n) s =
     (if code (token s) = Token_SEMICOLON
      then run [next_token, parameterSpecification n, formalPart_loop n] s
      else pass s)"

definition formalPart :: "nat \<Rightarrow> routine" where
  "formalPart n =
     run [accept n Token_PARENTHESIS_OPEN (quoted_expected Token_PARENTHESIS_OPEN),
          parameterSpecification n,
          formalPart_loop n,
          accept n Token_PARENTHESIS_CLOSE (quoted_expected Token_PARENTHESIS_CLOSE)]"

definition subprogramSpecification :: "nat \<Rightarrow> routine" where
  "subprogramSpecification n =
     run [accept n Token_PROC [Text ''procedure expected''],
          accept n Token_ID [Text ''identifier expected''],
          \<lambda>s. if code (token s) = ''('' then formalPart n s else pass s]"

subsection \<open>Simple statements\<close>

definition condition :: "nat \<Rightarrow> routine" where
  "condition n = expression n"

definition nullStatement :: "nat \<Rightarrow> routine" where
  "nullStatement n =
     run [accept n Token_NULL [Text ''null expected''],
          accept n Token_SEMICOLON [Text ''semicolon expected'']]"

definition assignmentStatement :: "nat \<Rightarrow> routine" where
  "assignmentStatement n =
     run [accept n Token_COLON_EQ [Text '':= expected''],
          expression n,
          accept n Token_SEMICOLON [Text ''semicolon expected'']]"

fun actualParameterPart_loop :: "nat \<Rightarrow> routine" where
  "actualParameterPart_loop 0 s = OutOfFuel s"
| "actualParameterPart_loop (Suc n) s =
     (if code (token s) = Token_COMMA
      then run [next_token, expression n, actualParameterPart_loop n] s
      else pass s)"

definition actualParameterPart :: "nat \<Rightarrow> routine" where
  "actualParameterPart n =
     run [accept n Token_PARENTHESIS_OPEN [Text ''open parenthesis expected''],
          expression n,
          actualParameterPart_loop n,
          accept n Token_PARENTHESIS_CLOSE [Text ''close parenthesis expected'']]"

definition procedureCallStatement :: "nat \<Rightarrow> routine" where
  "procedureCallStatement n =
     run [\<lambda>s. if code (token s) = Token_PARENTHESIS_OPEN then actualParameterPart n s
               else pass s,
          accept n Token_SEMICOLON [Text ''semicolon expected'']]"

definition exitStatement :: "nat \<Rightarrow> routine" where
  "exitStatement n =
     run [accept n Token_EXIT [Text ''exit expected''],
          \<lambda>s. if code (token s) = Token_WHEN then run [next_token, condition n] s else pass s,
          accept n Token_SEMICOLON [Text ''semicolon expected'']]"

definition nameStatement :: "nat \<Rightarrow> routine" where
  "nameStatement n =
     run [name n,
          \<lambda>s. if code (token s) = Token_COLON_EQ then assignmentStatement n s
               else procedureCallStatement n s]"

definition simpleStatement :: "nat \<Rightarrow> routine" where
  "simpleStatement n s =
     (if code (token s) = Token_NULL then nullStatement n s
      else if code (token s) = Token_EXIT then exitStatement n s
      else nameStatement n s)"

definition iterationScheme :: "nat \<Rightarrow> routine" where
  "iterationScheme n = run [accept n Token_WHILE [Text ''while expected''], condition n]"

subsection \<open>Statements\<close>

definition newline :: string where
  "newline = [CHR 0x0A]"

fun sequenceOfStatements :: "nat \<Rightarrow> routine"
  and sequenceOfStatements_loop :: "nat \<Rightarrow> routine"
  and statement :: "nat \<Rightarrow> routine"
  and compoundStatement :: "nat \<Rightarrow> routine"
  and ifStatement :: "nat \<Rightarrow> routine"
  and ifStatement_loop :: "nat \<Rightarrow> routine"
  and loopStatement :: "nat \<Rightarrow> routine"
where
  "sequenceOfStatements 0 s = OutOfFuel s"
| "sequenceOfStatements (Suc n) s =
     run [\<lambda>s. statement n s, \<lambda>s. sequenceOfStatements_loop n s] s"
| "sequenceOfStatements_loop 0 s = OutOfFuel s"
| "sequenceOfStatements_loop (Suc n) s =
     (if code (token s) \<notin> set [Token_END, Token_ELSIF, Token_ELSE]
      then run [\<lambda>s. statement n s, \<lambda>s. sequenceOfStatements_loop n s] s
      else pass s)"
| "statement 0 s = OutOfFuel s"
| "statement (Suc n) s =
     try_except
       (if code (token s) \<in> set [Token_IF, Token_WHILE, Token_LOOP] then compoundStatement n s
        else simpleStatement n s)
       (print_line [Text (''continue parsing next statement'' @ newline)])"
| "compoundStatement 0 s = OutOfFuel s"
| "compoundStatement (Suc n) s =
     (if code (token s) = Token_IF then ifStatement n s else loopStatement n s)"
| "ifStatement 0 s = OutOfFuel s"
| "ifStatement (Suc n) s =
     run [accept n Token_IF [Text ''if expected''],
          condition n,
          accept n Token_THEN [Text ''then expected''],
          \<lambda>s. sequenceOfStatements n s,
          \<lambda>s. ifStatement_loop n s,
          \<lambda>s. if code (token s) = Token_ELSE
               then run [next_token, \<lambda>s. sequenceOfStatements n s] s
               else pass s,
          accept n Token_END [Text ''end expected''],
          accept n Token_IF [Text ''if expected''],
          accept n Token_SEMICOLON [Text ''semicolon expected'']] s"
| "ifStatement_loop 0 s = OutOfFuel s"
| "ifStatement_loop (Suc n) s =
     (if code (token s) = Token_ELSIF
      then run [next_token,
                condition n,
                accept n Token_THEN [Text ''then expected''],
                \<lambda>s. sequenceOfStatements n s,
                \<lambda>s. ifStatement_loop n s] s
      else pass s)"
| "loopStatement 0 s = OutOfFuel s"
| "loopStatement (Suc n) s =
     run [\<lambda>s. try_except
                 (run [\<lambda>s. if code (token s) = Token_WHILE then iterationScheme n s else pass s,
                       accept n Token_LOOP [Text ''loop expected'']] s)
                 (print_line
                    [Text (''continue parsing from sequence of statements of loop statement''
                           @ newline)]),
          \<lambda>s. sequenceOfStatements n s,
          \<lambda>s. try_except
                 (run [accept n Token_END [Text ''end expected''],
                       accept n Token_LOOP [Text ''loop expected''],
                       accept n Token_SEMICOLON [Text ''semicolon expected'']] s)
                 (print_line [Text (''stop parsing loop statement'' @ newline)])] s"

subsection \<open>Subprogram bodies\<close>

fun subprogramBody :: "nat \<Rightarrow> routine"
  and declarativePart :: "nat \<Rightarrow> routine"
  and basicDeclaration :: "nat \<Rightarrow> routine"
where
  "subprogramBody 0 s = OutOfFuel s"
| "subprogramBody (Suc n) s =
     run [\<lambda>s. try_except
                 (run [subprogramSpecification n,
                       accept n Token_IS (quoted_expected Token_IS)] s)
                 (print_line
                    [Text (''continue parsing from declarative part of subprogram body''
                           @ newline)]),
          \<lambda>s. try_except (declarativePart n s)
                 (print_line
                    [Text (''continue parsing from [begin] of subprogram body'' @ newline)]),
          \<lambda>s. try_except (accept n Token_BEGIN (quoted_expected Token_BEGIN) s)
                 (print_line
                    [Text (''continue parsing from sequence of statement of subprogram body''
                           @ newline)]),
          \<lambda>s. try_except (sequenceOfStatements n s)
                 (print_line
                    [Text (''continue parsing from [end] of subprogram body'' @ newline)]),
          \<lambda>s. try_except
                 (run [accept n Token_END (quoted_expected Token_END),
                       \<lambda>s. if code (token s) = Token_ID then next_token s else pass s,
                       accept n Token_SEMICOLON [Text ''semicolon expected'']] s)
                 (print_line [Text (''stop parsing subprogram body'' @ newline)])] s"
| "declarativePart 0 s = OutOfFuel s"
| "declarativePart (Suc n) s =
     (if code (token s) \<in> set basicDeclarationHandles
      then run [\<lambda>s. try_except (basicDeclaration n s)
                       (print_line
                          [Text (''continue parsing basic declaration of declarative part''
                                 @ newline)]),
                \<lambda>s. declarativePart n s] s
      else pass s)"
| "basicDeclaration 0 s = OutOfFuel s"
| "basicDeclaration (Suc n) s =
     (if code (token s) = Token_ID then numberOrObjectDeclaration n s
      else if code (token s) = Token_TYPE then typeDeclaration n s
      else if code (token s) = Token_PROC then subprogramBody n s
      else pass s)"

subsection \<open>The session\<close>

definition parse :: "nat \<Rightarrow> routine" where
  "parse n = subprogramBody n"

text \<open>
  The constructor fetches the first token (the token it starts from stands for the
  attribute not yet assigned and is never read). \<^verbatim>\<open>on_source\<close> constructs the
  parser on a fresh Chario over a program text and calls one routine; a session calls
  \<^verbatim>\<open>parse\<close>.
\<close>

definition Parser :: "chario \<Rightarrow> unit outcome" where
  "Parser c = next_token \<lparr>chario = c, token = Token [] None, stdout = []\<rparr>"

definition on_source :: "string \<Rightarrow> routine \<Rightarrow> unit outcome" where
  "on_source source m =
     (case Parser \<lparr>input = source, messages = []\<rparr> of
        Returns u s \<Rightarrow> m s
      | Raises e s \<Rightarrow> Raises e s
      | OutOfFuel s' \<Rightarrow> OutOfFuel s')"

definition session :: "nat \<Rightarrow> string \<Rightarrow> unit outcome" where
  "session n source = on_source source (parse n)"

text \<open>
  A subprogram body with a malformed declaration, on one line and on four lines, and the
  diagnostic of \<^verbatim>\<open>typeDefinition\<close> for its lookahead \<^verbatim>\<open>;\<close>.
\<close>

definition malformed_declaration :: string where
  "malformed_declaration = ''procedure Foo is X : ; begin null; end Foo;''"

definition malformed_declaration_lines :: string where
  "malformed_declaration_lines =
     ''procedure Foo is'' @ newline @ ''X : ;'' @ newline @ ''begin null;'' @ newline
     @ ''end Foo;'' @ newline"

definition type_definition_expected :: message where
  "type_definition_expected =
     [Text ''expected either an opening parenthesis, an array, a range, or an identifier but '',
      Str (Token '';'' None), Text '' was detected'']"

text \<open>
  A subprogram body whose header ends its line before \<^verbatim>\<open>is\<close>, and a parser that
  has a newline token as its lookahead with two lines of a body still to read.
\<close>

definition header_ends_line_early :: string where
  "header_ends_line_early = ''procedure Foo'' @ newline @ ''is begin null; end Foo;''"

definition newline_before_body :: parser where
  "newline_before_body =
     \<lparr>chario = \<lparr>input = ''begin null;'' @ newline @ ''end Foo;'', messages = []\<rparr>,
        token = Token Token_NEWLINE None, stdout = []\<rparr>"

text \<open>
  The two loop conditions of the scanner, as predicates on one character of the input:
  \<^verbatim>\<open>PeekNextChar() not in delimiters\<close> and \<^verbatim>\<open>nextChar in ignoredCharacters\<close>.
\<close>

definition not_delimiter :: "char \<Rightarrow> bool" where
  "not_delimiter y = ([y] \<notin> set delimiters)"

definition ignored :: "char \<Rightarrow> bool" where
  "ignored y = ([y] \<in> set ignoredCharacters)"

section \<open>Evaluation rules\<close>

lemmas Token_defs =
  Token_NEWLINE_def Token_ID_def Token_numericalLiteral_def Token_stringLiteral_def
  Token_IS_def Token_BEGIN_def Token_END_def Token_IF_def Token_WHILE_def Token_LOOP_def
  Token_PROC_def Token_TYPE_def Token_RANGE_def Token_ARRAY_def Token_OF_def
  Token_CONSTANT_def Token_IN_def Token_OUT_def Token_NOT_def Token_AND_def Token_OR_def
  Token_NULL_def Token_EXIT_def Token_WHEN_def Token_THEN_def Token_ELSE_def
  Token_ELSIF_def Token_SEMICOLON_def Token_COLON_def Token_COLON_EQ_def Token_COMMA_def
  Token_PARENTHESIS_OPEN_def Token_PARENTHESIS_CLOSE_def Token_DOT_DOT_def
  Token_SQUARE_def

lemmas scanner_simps =
  GetNextToken.simps IntegerToken_loop.simps AlphabeticToken_loop.simps
  IntegerToken_def AlphabeticToken_def OperatorToken_def PeekNextChar_def GetNextChar_def
  PrintErrorMessage_def isalpha_def isdigit_def char_isalpha_def char_isdigit_def
  delimiters_def ignoredCharacters_def reservedWords_def singleCharOperators_def
  possiblyDoubleCharOperators_def doubleCharOperators_def Let_def

lemmas parser_simps =
  next_token_def pass_def print_line_def discard_tokens_def fatalError_def accept_def
  line_terminating_tokens_def quoted_expected_def Token_defs
  basicDeclarationHandles_def relationalOperator_def addingOperator_def
  multiplyingOperator_def identifierList_def range_rule_def index_def
  enumerationTypeDefinition_def arrayTypeDefinition_def typeDefinition_def
  objectDeclaration_def numberDeclaration_def numberOrObjectDeclaration_def
  typeDeclaration_def mode_def parameterSpecification_def formalPart_def
  subprogramSpecification_def condition_def nullStatement_def assignmentStatement_def
  actualParameterPart_def procedureCallStatement_def exitStatement_def nameStatement_def
  simpleStatement_def iterationScheme_def parse_def Parser_def on_source_def session_def
  newline_def

section \<open>The scanner: what one call consumes\<close>

lemma input_update_same: "input c = v \<Longrightarrow> c\<lparr>input := v\<rparr> = c"
  by (cases c) simp

lemma AlphabeticToken_loop_eq:
  "AlphabeticToken_loop result c =
     (result @ takeWhile not_delimiter (input c),
      c\<lparr>input := dropWhile not_delimiter (input c)\<rparr>)"
proof (induction result c rule: AlphabeticToken_loop.induct)
  case (1 result c)
  show ?case
  proof (cases "input c")
    case Nil
    then show ?thesis
      by (subst AlphabeticToken_loop.simps) (simp add: PeekNextChar_def delimiters_def)
  next
    case (Cons x xs)
    show ?thesis
    proof (cases "not_delimiter x")
      case True
      with Cons have "PeekNextChar c \<notin> set delimiters"
        by (simp add: PeekNextChar_def not_delimiter_def)
      with "1.IH" Cons True show ?thesis
        by (subst AlphabeticToken_loop.simps) (simp add: GetNextChar_def)
    next
      case False
      with Cons have "PeekNextChar c \<in> set delimiters"
        by (simp add: PeekNextChar_def not_delimiter_def)
      with Cons False show ?thesis
        by (subst AlphabeticToken_loop.simps) simp
    qed
  qed
qed

lemma GetNextToken_EOF:
  "input c = [] \<Longrightarrow> GetNextToken c = Return (Token ''EOF'' None) c"
  by (subst GetNextToken.simps) (simp add: PeekNextChar_def)

lemma GetNextToken_ignored:
  "input c = x # xs \<Longrightarrow> ignored x \<Longrightarrow> GetNextToken c = GetNextToken (c\<lparr>input := xs\<rparr>)"
  by (subst GetNextToken.simps) (simp add: PeekNextChar_def GetNextChar_def ignored_def)

lemma GetNextToken_dispatch:
  "input c = x # xs \<Longrightarrow> \<not> ignored x \<Longrightarrow>
   GetNextToken c =
     (if isalpha [x] then AlphabeticToken c
      else if isdigit [x] then IntegerToken c
      else OperatorToken c)"
  by (subst GetNextToken.simps) (simp add: PeekNextChar_def ignored_def)

lemma GetNextToken_skip:
  "GetNextToken c = GetNextToken (c\<lparr>input := dropWhile ignored (input c)\<rparr>)"
proof (induction "input c" arbitrary: c)
  case Nil
  then show ?case by (simp add: input_update_same)
next
  case (Cons x xs)
  from Cons.hyps(2) have c: "input c = x # xs" by simp
  show ?case
  proof (cases "ignored x")
    case True
    have "GetNextToken c = GetNextToken (c\<lparr>input := xs\<rparr>)"
      using c True by (rule GetNextToken_ignored)
    also have "\<dots> =
        GetNextToken (c\<lparr>input := xs\<rparr>\<lparr>input := dropWhile ignored (input (c\<lparr>input := xs\<rparr>))\<rparr>)"
      by (rule Cons.hyps(1)) simp
    finally show ?thesis using c True by simp
  next
    case False
    with c show ?thesis by (simp add: input_update_same)
  qed
qed

lemma AlphabeticToken_no_newline:
  "AlphabeticToken c \<noteq> Return (Token Token_NEWLINE v) c'"
proof -
  have "takeWhile not_delimiter (input c) \<noteq> [CHR 0x0A]"
  proof
    assume "takeWhile not_delimiter (input c) = [CHR 0x0A]"
    then have "CHR 0x0A \<in> set (takeWhile not_delimiter (input c))" by simp
    then have "not_delimiter (CHR 0x0A)" by (rule set_takeWhileD[THEN conjunct2])
    then show False by (simp add: not_delimiter_def delimiters_def)
  qed
  then show ?thesis
    by (simp add: AlphabeticToken_def AlphabeticToken_loop_eq Token_NEWLINE_def)
qed

lemma IntegerToken_no_newline:
  "IntegerToken c \<noteq> Return (Token Token_NEWLINE v) c'"
  by (simp add: IntegerToken_def Token_NEWLINE_def split: prod.splits)

lemma OperatorToken_no_newline:
  "OperatorToken c \<noteq> Return (Token Token_NEWLINE v) c'"
  by (auto simp: OperatorToken_def Token_NEWLINE_def Let_def singleCharOperators_def
        possiblyDoubleCharOperators_def doubleCharOperators_def GetNextChar_def
        PeekNextChar_def
      split: prod.splits list.splits if_splits)

lemma GetNextToken_no_newline:
  "GetNextToken c \<noteq> Return (Token Token_NEWLINE v) c'"
proof (cases "dropWhile ignored (input c)")
  case Nil
  then show ?thesis
    by (subst GetNextToken_skip) (simp add: GetNextToken_EOF Token_NEWLINE_def)
next
  case (Cons x xs)
  then have "\<not> ignored x"
    using hd_dropWhile[of ignored "input c"] by simp
  with Cons show ?thesis
    by (subst GetNextToken_skip)
       (simp add: GetNextToken_dispatch AlphabeticToken_no_newline IntegerToken_no_newline
          OperatorToken_no_newline)
qed

lemma char_isalpha_not_ignored: "char_isalpha x \<Longrightarrow> \<not> ignored x"
  by (auto simp: char_isalpha_def ignored_def ignoredCharacters_def)

lemma ignored_iff:
  "ignored y \<longleftrightarrow> y \<in> {CHR '' '', CHR 0x0A, CHR 0x0D, CHR 0x09, CHR 0x5C}"
  by (auto simp: ignored_def ignoredCharacters_def)

lemma GetNextToken_letter_led:
  "char_isalpha x \<Longrightarrow>
   GetNextToken \<lparr>input = x # xs, messages = ms\<rparr> =
     Return (if takeWhile not_delimiter (x # xs) \<in> set reservedWords
             then Token (takeWhile not_delimiter (x # xs)) None
             else Token ''id'' (Some (takeWhile not_delimiter (x # xs))))
       \<lparr>input = dropWhile not_delimiter (x # xs), messages = ms\<rparr>"
proof -
  assume alpha: "char_isalpha x"
  then have "\<not> ignored x" by (rule char_isalpha_not_ignored)
  with alpha have "GetNextToken \<lparr>input = x # xs, messages = ms\<rparr> =
      AlphabeticToken \<lparr>input = x # xs, messages = ms\<rparr>"
    by (simp add: GetNextToken_dispatch isalpha_def)
  then show ?thesis
    by (simp add: AlphabeticToken_def AlphabeticToken_loop_eq)
qed

section \<open>Claims about the scanner\<close>

text \<open>
  Claim C1 says that \<^verbatim>\<open>GetNextToken\<close> skips space, tab, carriage return and
  backslash only, and returns a newline as a newline token; the parser is written for
  that (\<^verbatim>\<open>ignore_newlines\<close>, \<^verbatim>\<open>discard_tokens\<close> and \<^verbatim>\<open>accept\<close> test the
  lookahead for \<^verbatim>\<open>Token.NEWLINE\<close>). The scanner does otherwise: its set of ignored
  characters is \<open>{space, newline, carriage return, tab, backslash}\<close>. The call
  behaves as on the input without its longest prefix of such characters, a first
  character outside the set starts the token (it is handed to the scanner for its
  class), and no call returns a token of the newline category: on a newline followed by
  \<^verbatim>\<open>begin\<close> the reserved word is returned.
\<close>

theorem GetNextToken_skips_newline:
  "GetNextToken c = GetNextToken (c\<lparr>input := dropWhile ignored (input c)\<rparr>)
   \<and> (ignored y \<longleftrightarrow> y \<in> {CHR '' '', CHR 0x0A, CHR 0x0D, CHR 0x09, CHR 0x5C})
   \<and> (input c = x # xs \<and> \<not> ignored x \<longrightarrow>
        GetNextToken c =
          (if isalpha [x] then AlphabeticToken c
           else if isdigit [x] then IntegerToken c
           else OperatorToken c))
   \<and> GetNextToken c \<noteq> Return (Token Token_NEWLINE v) c'
   \<and> GetNextToken \<lparr>input = CHR 0x0A # ''begin'', messages = ms\<rparr> =
       Return (Token ''begin'' None) \<lparr>input = [], messages = ms\<rparr>"
proof (intro conjI impI)
  show "GetNextToken c = GetNextToken (c\<lparr>input := dropWhile ignored (input c)\<rparr>)"
    by (rule GetNextToken_skip)
  show "GetNextToken \<lparr>input = CHR 0x0A # ''begin'', messages = ms\<rparr> =
       Return (Token ''begin'' None) \<lparr>input = [], messages = ms\<rparr>"
    by (simp add: scanner_simps)
  show "ignored y \<longleftrightarrow> y \<in> {CHR '' '', CHR 0x0A, CHR 0x0D, CHR 0x09, CHR 0x5C}"
    by (rule ignored_iff)
  show "GetNextToken c \<noteq> Return (Token Token_NEWLINE v) c'"
    by (rule GetNextToken_no_newline)
next
  assume "input c = x # xs \<and> \<not> ignored x"
  then show "GetNextToken c =
          (if isalpha [x] then AlphabeticToken c
           else if isdigit [x] then IntegerToken c
           else OperatorToken c)"
    using GetNextToken_dispatch[of c x xs] by simp
qed

theorem GetNextToken_skips_newline_witness:
  "GetNextToken \<lparr>input = [CHR 0x0A, CHR '' '', CHR '';''], messages = []\<rparr> =
     GetNextToken \<lparr>input = '';'', messages = []\<rparr>
   \<and> ignored (CHR 0x0A)
   \<and> GetNextToken \<lparr>input = '';'', messages = []\<rparr> =
       OperatorToken \<lparr>input = '';'', messages = []\<rparr>"
proof -
  note skip = GetNextToken_skips_newline
      [of "\<lparr>input = [CHR 0x0A, CHR '' '', CHR '';''], messages = []\<rparr>" "CHR 0x0A",
       THEN conjunct1]
  note ign = GetNextToken_skips_newline
      [of "\<lparr>input = [], messages = []\<rparr>" "CHR 0x0A", THEN conjunct2, THEN conjunct1]
  note start = GetNextToken_skips_newline
      [of "\<lparr>input = '';'', messages = []\<rparr>" _ "CHR '';''" "[]",
       THEN conjunct2, THEN conjunct2, THEN conjunct1]
  have "\<not> ignored (CHR '';'')"
    by (simp add: ignored_def ignoredCharacters_def)
  then have "dropWhile ignored [CHR 0x0A, CHR '' '', CHR '';''] = '';''"
    by (simp add: ignored_def ignoredCharacters_def)
  with skip have "GetNextToken \<lparr>input = [CHR 0x0A, CHR '' '', CHR '';''], messages = []\<rparr> =
     GetNextToken \<lparr>input = '';'', messages = []\<rparr>"
    by simp
  moreover from ign have "ignored (CHR 0x0A)" by simp
  moreover from start \<open>\<not> ignored (CHR '';'')\<close>
  have "GetNextToken \<lparr>input = '';'', messages = []\<rparr> =
       OperatorToken \<lparr>input = '';'', messages = []\<rparr>"
    by (simp add: isalpha_def isdigit_def char_isalpha_def char_isdigit_def)
  ultimately show ?thesis by blast
qed

text \<open>
  On a newline followed by \<^verbatim>\<open>begin\<close> the call returns the reserved word: the newline
  is consumed and no newline token is built.
\<close>

theorem GetNextToken_newline_counterexample:
  "GetNextToken \<lparr>input = CHR 0x0A # ''begin'', messages = []\<rparr> =
     Return (Token ''begin'' None) \<lparr>input = [], messages = []\<rparr>
   \<and> code (Token ''begin'' None) \<noteq> Token_NEWLINE"
  by (simp add: scanner_simps Token_NEWLINE_def)

text \<open>
  Claim C9, maximal munch. On an input that starts with a letter, \<^verbatim>\<open>GetNextToken\<close>
  returns one token whose text is the input up to, and without, the first delimiter (or
  the whole input when there is none), and leaves the cursor on that delimiter. The
  token is the reserved word when the whole text is one, and an identifier carrying the
  text otherwise.
\<close>

theorem maximal_munch:
  "char_isalpha x \<Longrightarrow>
   GetNextToken \<lparr>input = x # xs, messages = ms\<rparr> =
     Return (if takeWhile not_delimiter (x # xs) \<in> set reservedWords
             then Token (takeWhile not_delimiter (x # xs)) None
             else Token ''id'' (Some (takeWhile not_delimiter (x # xs))))
       \<lparr>input = dropWhile not_delimiter (x # xs), messages = ms\<rparr>"
  by (rule GetNextToken_letter_led)

theorem maximal_munch_witness:
  "char_isalpha (CHR ''b'')
   \<and> GetNextToken \<lparr>input = ''beginx '', messages = []\<rparr> =
       Return (Token ''id'' (Some ''beginx'')) \<lparr>input = '' '', messages = []\<rparr>
   \<and> GetNextToken \<lparr>input = ''begin x'', messages = []\<rparr> =
       Return (Token ''begin'' None) \<lparr>input = '' x'', messages = []\<rparr>"
  using maximal_munch[of "CHR ''b''" "''eginx ''" "[]"]
        maximal_munch[of "CHR ''b''" "''egin x''" "[]"]
  by (simp add: char_isalpha_def not_delimiter_def delimiters_def reservedWords_def)

section \<open>Phrase-level discard\<close>

lemma next_token_no_newline:
  "next_token s = Returns u s' \<Longrightarrow> code (token s') \<noteq> Token_NEWLINE"
proof
  assume ret: "next_token s = Returns u s'" and nl: "code (token s') = Token_NEWLINE"
  from ret obtain t c where g: "GetNextToken (chario s) = Return t c" and t: "token s' = t"
    by (auto simp: next_token_def split: scanned.splits)
  from nl t have "t = Token Token_NEWLINE (lexeme t)" by (cases t) simp
  with g GetNextToken_no_newline show False by metis
qed

lemma discard_tokens_loop_no_return:
  "code (token s) \<noteq> Token_NEWLINE \<Longrightarrow> discard_tokens_loop n message s \<noteq> Returns m s'"
proof (induction n arbitrary: message s)
  case 0
  show ?case by simp
next
  case (Suc n)
  show ?case
  proof (cases "next_token s")
    case (Returns u s1)
    then have "code (token s1) \<noteq> Token_NEWLINE" by (rule next_token_no_newline)
    then have "discard_tokens_loop n (message @ [Str (token s), Text '' '']) s1 \<noteq> Returns m s'"
      by (rule Suc.IH)
    with Suc.prems Returns show ?thesis by simp
  next
    case (Raises e s1)
    with Suc.prems show ?thesis by simp
  next
    case (OutOfFuel s9)
    with Suc.prems show ?thesis by simp
  qed
qed

lemma discard_tokens_no_return:
  "discard_tokens n s \<noteq> Returns u s'"
proof (cases "next_token s")
  case first: (Returns v s1)
  then have nl: "code (token s1) \<noteq> Token_NEWLINE" by (rule next_token_no_newline)
  show ?thesis
  proof (cases "discard_tokens_loop n [Text ''trailing tokens: '', Str (token s), Text '' ''] s1")
    case (Returns m s2)
    with discard_tokens_loop_no_return[OF nl] show ?thesis by blast
  next
    case (Raises e s2)
    with first show ?thesis by (simp add: discard_tokens_def)
  next
    case (OutOfFuel s9)
    with first show ?thesis by (simp add: discard_tokens_def)
  qed
next
  case (Raises e s1)
  then show ?thesis by (simp add: discard_tokens_def)
next
  case (OutOfFuel s9)
  then show ?thesis by (simp add: discard_tokens_def)
qed

lemma fatalError_no_return:
  "fatalError n error_message s \<noteq> Returns u s'"
  by (simp add: fatalError_def split: outcome.split)

lemma next_token_at_EOF:
  "input (chario s) = [] \<Longrightarrow> next_token s = Returns () (s\<lparr>token := Token ''EOF'' None\<rparr>)"
  by (simp add: next_token_def GetNextToken_EOF)

lemma discard_tokens_loop_at_EOF:
  "input (chario s) = [] \<Longrightarrow> code (token s) \<noteq> Token_NEWLINE \<Longrightarrow>
   discard_tokens_loop n message s =
     OutOfFuel (if n = 0 then s else s\<lparr>token := Token ''EOF'' None\<rparr>)"
proof (induction n arbitrary: message s)
  case 0
  show ?case by simp
next
  case (Suc n)
  have "discard_tokens_loop n (message @ [Str (token s), Text '' ''])
          (s\<lparr>token := Token ''EOF'' None\<rparr>) =
        OutOfFuel (if n = 0 then s\<lparr>token := Token ''EOF'' None\<rparr>
                   else s\<lparr>token := Token ''EOF'' None\<rparr>\<lparr>token := Token ''EOF'' None\<rparr>)"
    using Suc.prems(1) by (intro Suc.IH) (simp_all add: Token_NEWLINE_def)
  with Suc.prems show ?case by (simp add: next_token_at_EOF)
qed

lemma discard_tokens_at_EOF:
  "input (chario s) = [] \<Longrightarrow>
   discard_tokens n s = OutOfFuel (s\<lparr>token := Token ''EOF'' None\<rparr>)"
  by (simp add: discard_tokens_def next_token_at_EOF discard_tokens_loop_at_EOF
        Token_NEWLINE_def)

text \<open>
  Claim C2 says that the discard routine terminates and leaves the lookahead on the
  first token of the next line that is not a newline, or on the end of input. The loop
  of \<^verbatim>\<open>discard_tokens\<close> leaves only on a newline token, which the scanner never
  returns, and has no test for the end of input. So no call of \<^verbatim>\<open>discard_tokens\<close>
  returns: it raises when the scanner meets an unexpected symbol and runs forever
  otherwise, as it does once the input is used up, where the scanner answers every call
  with the end-of-input token and the loop reads it again and again.
\<close>

theorem discard_tokens_does_not_return:
  "discard_tokens n s \<noteq> Returns u s'
   \<and> discard_tokens n \<lparr>chario = \<lparr>input = [], messages = ms\<rparr>, token = t, stdout = out\<rparr> =
       OutOfFuel
         \<lparr>chario = \<lparr>input = [], messages = ms\<rparr>, token = Token ''EOF'' None, stdout = out\<rparr>"
  by (simp add: discard_tokens_no_return discard_tokens_at_EOF)

section \<open>Whole sessions\<close>

text \<open>
  Claim C8. The session on \<^verbatim>\<open>procedure Foo is begin null; end Foo;\<close> returns for
  every amount of fuel from four units on, with the whole input consumed, the lookahead on
  the end-of-input token, no message in Chario's sink and nothing printed by a recovery
  handler.
\<close>

theorem minimal_procedure_accepted:
  "session (Suc (Suc (Suc (Suc n)))) ''procedure Foo is begin null; end Foo;'' =
     Returns ()
       \<lparr>chario = \<lparr>input = [], messages = []\<rparr>, token = Token ''EOF'' None, stdout = []\<rparr>"
  by (simp add: scanner_simps parser_simps)

lemma malformed_declaration_enough_fuel:
  "session (Suc (Suc (Suc (Suc (Suc (Suc (Suc (Suc (Suc m))))))))) malformed_declaration =
     OutOfFuel
       \<lparr>chario = \<lparr>input = [], messages = [type_definition_expected]\<rparr>,
          token = Token ''EOF'' None, stdout = []\<rparr>"
  by (simp add: scanner_simps parser_simps discard_tokens_loop_at_EOF malformed_declaration_def
        type_definition_expected_def)

lemma malformed_declaration_little_fuel:
  "n < 9 \<Longrightarrow> unfinished (session n malformed_declaration)"
proof -
  assume n: "n < 9"
  have "list_all (\<lambda>k. unfinished (session k malformed_declaration)) [0..<9]"
    by code_simp
  with n show ?thesis by (simp add: list_all_iff)
qed

lemma malformed_declaration_lines_enough_fuel:
  "session (Suc (Suc (Suc (Suc (Suc (Suc (Suc (Suc (Suc m))))))))) malformed_declaration_lines =
     OutOfFuel
       \<lparr>chario = \<lparr>input = [], messages = [type_definition_expected]\<rparr>,
          token = Token ''EOF'' None, stdout = []\<rparr>"
  by (simp add: scanner_simps parser_simps discard_tokens_loop_at_EOF
        malformed_declaration_lines_def type_definition_expected_def)

lemma malformed_declaration_lines_little_fuel:
  "n < 9 \<Longrightarrow> unfinished (session n malformed_declaration_lines)"
proof -
  assume n: "n < 9"
  have "list_all (\<lambda>k. unfinished (session k malformed_declaration_lines)) [0..<9]"
    by code_simp
  with n show ?thesis by (simp add: list_all_iff)
qed

lemma nine_or_more:
  "\<not> n < 9 \<Longrightarrow> \<exists>m. n = Suc (Suc (Suc (Suc (Suc (Suc (Suc (Suc (Suc m))))))))"
proof -
  assume "\<not> n < 9"
  then have "9 \<le> n" by simp
  then obtain m where "n = 9 + m" by (auto simp: le_iff_add)
  then have "n = Suc (Suc (Suc (Suc (Suc (Suc (Suc (Suc (Suc m))))))))" by simp
  then show ?thesis ..
qed

text \<open>
  Claim C6 says that on \<^verbatim>\<open>procedure Foo is X : ; begin null; end Foo;\<close> one syntax
  error is reported, the rest of the line is discarded and the rest of the body is
  still recognised. The session reports the error of the declaration and then discards
  tokens without end: for no amount of fuel does it return or raise, and from nine
  units on the fuel runs out at the end of the input, with that one diagnostic in the
  sink and no recovery line printed. The same holds when the four phrases stand on four
  lines.
\<close>

theorem phase_recovery_example_diverges:
  "unfinished (session n malformed_declaration)
   \<and> unfinished (session n malformed_declaration_lines)
   \<and> session (Suc (Suc (Suc (Suc (Suc (Suc (Suc (Suc (Suc m))))))))) malformed_declaration =
       OutOfFuel
         \<lparr>chario = \<lparr>input = [], messages = [type_definition_expected]\<rparr>,
            token = Token ''EOF'' None, stdout = []\<rparr>
   \<and> session (Suc (Suc (Suc (Suc (Suc (Suc (Suc (Suc (Suc m))))))))) malformed_declaration_lines =
       OutOfFuel
         \<lparr>chario = \<lparr>input = [], messages = [type_definition_expected]\<rparr>,
            token = Token ''EOF'' None, stdout = []\<rparr>"
proof (intro conjI)
  show "unfinished (session n malformed_declaration)"
  proof (cases "n < 9")
    case True
    then show ?thesis by (rule malformed_declaration_little_fuel)
  next
    case False
    then obtain k where "n = Suc (Suc (Suc (Suc (Suc (Suc (Suc (Suc (Suc k))))))))"
      using nine_or_more by blast
    then show ?thesis
      by (simp only: malformed_declaration_enough_fuel) (simp add: unfinished_def)
  qed
  show "unfinished (session n malformed_declaration_lines)"
  proof (cases "n < 9")
    case True
    then show ?thesis by (rule malformed_declaration_lines_little_fuel)
  next
    case False
    then obtain k where "n = Suc (Suc (Suc (Suc (Suc (Suc (Suc (Suc (Suc k))))))))"
      using nine_or_more by blast
    then show ?thesis
      by (simp only: malformed_declaration_lines_enough_fuel) (simp add: unfinished_def)
  qed
qed (rule malformed_declaration_enough_fuel malformed_declaration_lines_enough_fuel)+

section \<open>Lexical errors\<close>

lemma try_except_print_line_no_raise:
  "try_except m (print_line msg) \<noteq> Raises e s'"
  by (cases m) (simp_all add: print_line_def)

lemma run_no_raise:
  "(\<And>p s e s'. p \<in> set ps \<Longrightarrow> p s \<noteq> Raises e s') \<Longrightarrow> run ps s \<noteq> Raises e s'"
proof (induction ps arbitrary: s)
  case Nil
  show ?case by simp
next
  case (Cons p ps)
  show ?case
  proof (cases "p s")
    case (Returns u s1)
    have "run ps s1 \<noteq> Raises e s'"
      by (rule Cons.IH) (simp add: Cons.prems)
    with Returns show ?thesis by simp
  next
    case (Raises e1 s1)
    with Cons.prems[of p s e1 s1] show ?thesis by simp
  next
    case (OutOfFuel s9)
    then show ?thesis by simp
  qed
qed

lemma statement_no_raise:
  "statement n s \<noteq> Raises e s'"
  by (cases n) (simp_all add: try_except_print_line_no_raise)

lemma subprogramBody_no_raise:
  "subprogramBody n s \<noteq> Raises e s'"
proof (cases n)
  case 0
  then show ?thesis by simp
next
  case (Suc k)
  have "run [\<lambda>s. try_except
                 (run [subprogramSpecification k,
                       accept k Token_IS (quoted_expected Token_IS)] s)
                 (print_line
                    [Text (''continue parsing from declarative part of subprogram body''
                           @ newline)]),
          \<lambda>s. try_except (declarativePart k s)
                 (print_line
                    [Text (''continue parsing from [begin] of subprogram body'' @ newline)]),
          \<lambda>s. try_except (accept k Token_BEGIN (quoted_expected Token_BEGIN) s)
                 (print_line
                    [Text (''continue parsing from sequence of statement of subprogram body''
                           @ newline)]),
          \<lambda>s. try_except (sequenceOfStatements k s)
                 (print_line
                    [Text (''continue parsing from [end] of subprogram body'' @ newline)]),
          \<lambda>s. try_except
                 (run [accept k Token_END (quoted_expected Token_END),
                       \<lambda>s. if code (token s) = Token_ID then next_token s else pass s,
                       accept k Token_SEMICOLON [Text ''semicolon expected'']] s)
                 (print_line [Text (''stop parsing subprogram body'' @ newline)])] s
        \<noteq> Raises e s'"
    by (rule run_no_raise) (auto simp: try_except_print_line_no_raise)
  with Suc show ?thesis by simp
qed

lemma session_raises_iff:
  "session n source = Raises e s' \<longleftrightarrow> Parser \<lparr>input = source, messages = []\<rparr> = Raises e s'"
  by (cases "Parser \<lparr>input = source, messages = []\<rparr>")
     (simp_all add: session_def on_source_def parse_def subprogramBody_no_raise)

lemma unexpected_symbol:
  assumes "\<not> ignored x" "\<not> char_isalpha x" "\<not> char_isdigit x"
    and "[x] \<notin> set singleCharOperators" "[x] \<notin> set possiblyDoubleCharOperators"
    and "x \<noteq> CHR ''.'' \<or> take 1 xs \<noteq> ''.''"
  shows "GetNextToken \<lparr>input = x # xs, messages = ms\<rparr> =
     Raise (RuntimeError [Text ''Unexpected symbol''])
       \<lparr>input = xs,
          messages = ms @ [[Text (''Unexpected symbol '' @ [CHR 0x27, x, CHR 0x27])]]\<rparr>"
proof -
  have "GetNextToken \<lparr>input = x # xs, messages = ms\<rparr> =
      OperatorToken \<lparr>input = x # xs, messages = ms\<rparr>"
    using assms(1-3) by (simp add: GetNextToken_dispatch isalpha_def isdigit_def)
  also have "\<dots> = Raise (RuntimeError [Text ''Unexpected symbol''])
       \<lparr>input = xs,
          messages = ms @ [[Text (''Unexpected symbol '' @ [CHR 0x27, x, CHR 0x27])]]\<rparr>"
    using assms(4-6)
    by (cases xs)
       (auto simp: OperatorToken_def GetNextChar_def PeekNextChar_def PrintErrorMessage_def)
  finally show ?thesis .
qed

text \<open>
  Claim C3, as the code has it. A character that begins no token makes the scanner
  report \<^verbatim>\<open>Unexpected symbol\<close> once to Chario's sink, consume the character and
  raise \<^verbatim>\<open>RuntimeError\<close>, the exception of a syntax error. The parser keeps its
  lookahead, and the handlers of the recognizer catch the exception like any other:
  neither \<^verbatim>\<open>statement\<close> nor \<^verbatim>\<open>parse\<close> lets it through. A session is aborted by
  it only when it is raised outside every handler, which is when the constructor
  fetches the first token.
\<close>

theorem lexical_error_is_caught:
  assumes "\<not> ignored x" "\<not> char_isalpha x" "\<not> char_isdigit x"
    and "[x] \<notin> set singleCharOperators" "[x] \<notin> set possiblyDoubleCharOperators"
    and "x \<noteq> CHR ''.'' \<or> take 1 xs \<noteq> ''.''"
  shows "next_token \<lparr>chario = \<lparr>input = x # xs, messages = ms\<rparr>, token = t, stdout = out\<rparr> =
       Raises (RuntimeError [Text ''Unexpected symbol''])
         \<lparr>chario =
            \<lparr>input = xs,
               messages = ms @ [[Text (''Unexpected symbol '' @ [CHR 0x27, x, CHR 0x27])]]\<rparr>,
            token = t, stdout = out\<rparr>
     \<and> statement n s \<noteq> Raises e s'
     \<and> parse n s \<noteq> Raises e s'
     \<and> (session n source = Raises e s' \<longleftrightarrow>
          Parser \<lparr>input = source, messages = []\<rparr> = Raises e s')"
  using unexpected_symbol[OF assms, of ms] statement_no_raise[of n s e s']
    subprogramBody_no_raise[of n s e s'] session_raises_iff[of n source e s']
  by (simp add: next_token_def parse_def)

theorem lexical_error_is_caught_witness:
  "next_token
     \<lparr>chario = \<lparr>input = ''@ ;'', messages = []\<rparr>, token = Token ''null'' None, stdout = []\<rparr> =
     Raises (RuntimeError [Text ''Unexpected symbol''])
       \<lparr>chario =
          \<lparr>input = '' ;'', messages = [[Text (''Unexpected symbol '' @ [CHR 0x27, CHR ''@'', CHR 0x27])]]\<rparr>,
          token = Token ''null'' None, stdout = []\<rparr>"
proof -
  have "\<not> ignored (CHR ''@'')" "\<not> char_isalpha (CHR ''@'')" "\<not> char_isdigit (CHR ''@'')"
    "[CHR ''@''] \<notin> set singleCharOperators" "[CHR ''@''] \<notin> set possiblyDoubleCharOperators"
    "CHR ''@'' \<noteq> CHR ''.'' \<or> take 1 '' ;'' \<noteq> ''.''"
    by (simp_all add: ignored_def ignoredCharacters_def char_isalpha_def char_isdigit_def
          singleCharOperators_def possiblyDoubleCharOperators_def)
  from lexical_error_is_caught[OF this, of "[]" "Token ''null'' None" "[]", THEN conjunct1]
  show ?thesis by simp
qed

text \<open>
  On \<^verbatim>\<open>procedure Foo is begin null @ ; end Foo;\<close> the lexical error is reported,
  \<^verbatim>\<open>statement\<close> catches it and prints its recovery line, the null statement is
  recognised from the kept lookahead, and the session returns at the end of the input.
\<close>

theorem lexical_error_counterexample:
  "session 30 ''procedure Foo is begin null @ ; end Foo;'' =
     Returns ()
       \<lparr>chario =
          \<lparr>input = [],
             messages = [[Text (''Unexpected symbol '' @ [CHR 0x27, CHR ''@'', CHR 0x27])]]\<rparr>,
          token = Token ''EOF'' None,
          stdout = [[Text (''continue parsing next statement'' @ newline)]]\<rparr>"
  by code_simp

section \<open>The accept primitive\<close>

lemma run_append_pass: "run (ps @ [pass]) s = run ps s"
proof (induction ps arbitrary: s)
  case Nil
  show ?case by (simp add: pass_def)
next
  case (Cons p ps)
  then show ?case by (cases "p s") simp_all
qed

lemma run_pass_ends: "run [pass, a, b, c, pass] s = run [a, b, c] s"
proof -
  have "run [pass, a, b, c, pass] s = run ([a, b, c] @ [pass]) s"
    by (simp add: pass_def)
  then show ?thesis by (simp only: run_append_pass)
qed

lemma ignore_newlines_lookahead:
  "ignore_newlines n s = Returns u s' \<Longrightarrow> code (token s') \<noteq> Token_NEWLINE"
proof (induction n arbitrary: s)
  case 0
  then show ?case by simp
next
  case (Suc n)
  show ?case
  proof (cases "code (token s) = Token_NEWLINE")
    case True
    with Suc.prems obtain s1 where "ignore_newlines n s1 = Returns u s'"
      by (cases "next_token s") (simp_all split: outcome.splits)
    then show ?thesis by (rule Suc.IH)
  next
    case False
    with Suc.prems show ?thesis by simp
  qed
qed

lemma accept_newline_line_terminating:
  assumes "code (token s) = Token_NEWLINE" "expected \<in> set line_terminating_tokens"
  shows "accept n expected m s =
     fatalError n
       [Text (''expected ['' @ expected @ ''] but ''), Str (token s), Text '' was detected''] s"
proof (cases "fatalError n
       [Text (''expected ['' @ expected @ ''] but ''), Str (token s), Text '' was detected''] s")
  case (Returns u s1)
  then show ?thesis by (simp add: fatalError_no_return)
next
  case (Raises e s1)
  with assms show ?thesis by (simp add: accept_def)
next
  case (OutOfFuel s9)
  with assms show ?thesis by (simp add: accept_def)
qed

lemma accept_not_line_terminating:
  assumes "expected \<notin> set line_terminating_tokens"
  shows "accept n expected m s =
     run [ignore_newlines n,
          \<lambda>s'. if code (token s') \<noteq> expected
                then fatalError n
                       [Text (''expected ['' @ expected @ ''] but ''), Str (token s),
                        Text '' was detected''] s'
                else pass s',
          next_token] s"
  using assms unfolding accept_def Let_def
  by (simp only: simp_thms if_False run_pass_ends)

lemma accept_mismatch:
  assumes "code (token s) \<noteq> Token_NEWLINE" "code (token s) \<noteq> expected"
  shows "accept (Suc n) expected m s =
     fatalError (Suc n)
       [Text (''expected ['' @ expected @ ''] but ''), Str (token s), Text '' was detected''] s"
proof (cases "fatalError (Suc n)
       [Text (''expected ['' @ expected @ ''] but ''), Str (token s), Text '' was detected''] s")
  case (Returns u s1)
  then show ?thesis by (simp add: fatalError_no_return)
next
  case (Raises e s1)
  with assms show ?thesis by (simp add: accept_def pass_def)
next
  case (OutOfFuel s9)
  with assms show ?thesis by (simp add: accept_def pass_def)
qed

lemma OperatorToken_raise:
  "OperatorToken c = Raise e c' \<Longrightarrow> e = RuntimeError [Text ''Unexpected symbol'']"
  by (auto simp: OperatorToken_def Let_def split: prod.splits if_splits)

lemma GetNextToken_raise:
  "GetNextToken c = Raise e c' \<Longrightarrow> e = RuntimeError [Text ''Unexpected symbol'']"
proof (cases "dropWhile ignored (input c)")
  case Nil
  assume "GetNextToken c = Raise e c'"
  with Nil show ?thesis
    using GetNextToken_skip[of c] by (simp add: GetNextToken_EOF)
next
  case (Cons x xs)
  assume r: "GetNextToken c = Raise e c'"
  from Cons have "\<not> ignored x"
    using hd_dropWhile[of ignored "input c"] by simp
  with Cons have "GetNextToken (c\<lparr>input := x # xs\<rparr>) =
      (if isalpha [x] then AlphabeticToken (c\<lparr>input := x # xs\<rparr>)
       else if isdigit [x] then IntegerToken (c\<lparr>input := x # xs\<rparr>)
       else OperatorToken (c\<lparr>input := x # xs\<rparr>))"
    by (simp add: GetNextToken_dispatch)
  with r Cons have "OperatorToken (c\<lparr>input := x # xs\<rparr>) = Raise e c'"
    using GetNextToken_skip[of c]
    by (simp add: AlphabeticToken_def IntegerToken_def split: if_splits prod.splits)
  then show ?thesis by (rule OperatorToken_raise)
qed

lemma next_token_raise:
  "next_token s = Raises e s' \<Longrightarrow> e = RuntimeError [Text ''Unexpected symbol'']"
  by (auto simp: next_token_def split: scanned.splits dest: GetNextToken_raise)

lemma discard_tokens_loop_raise:
  "discard_tokens_loop n message s = Raises e s' \<Longrightarrow>
   e = RuntimeError [Text ''Unexpected symbol'']"
proof (induction n arbitrary: message s)
  case 0
  then show ?case by simp
next
  case (Suc n)
  show ?case
  proof (cases "next_token s")
    case (Returns u s1)
    with Suc.prems have "discard_tokens_loop n (message @ [Str (token s), Text '' '']) s1 =
        Raises e s'"
      by (simp split: if_splits)
    then show ?thesis by (rule Suc.IH)
  next
    case (Raises e1 s1)
    with Suc.prems have "e1 = e" by (simp split: if_splits)
    with Raises show ?thesis by (simp add: next_token_raise)
  next
    case (OutOfFuel s9)
    with Suc.prems show ?thesis by (simp split: if_splits)
  qed
qed

lemma discard_tokens_raise:
  "discard_tokens n s = Raises e s' \<Longrightarrow> e = RuntimeError [Text ''Unexpected symbol'']"
proof -
  assume r: "discard_tokens n s = Raises e s'"
  show ?thesis
  proof (cases "next_token s")
    case first: (Returns v s1)
    then have nl: "code (token s1) \<noteq> Token_NEWLINE" by (rule next_token_no_newline)
    show ?thesis
    proof (cases "discard_tokens_loop n [Text ''trailing tokens: '', Str (token s), Text '' ''] s1")
      case (Returns m s2)
      with discard_tokens_loop_no_return[OF nl] show ?thesis by blast
    next
      case (Raises e2 s2)
      with first r have "e2 = e" by (simp add: discard_tokens_def)
      with Raises show ?thesis by (simp add: discard_tokens_loop_raise)
    next
      case (OutOfFuel s9)
      with first r show ?thesis by (simp add: discard_tokens_def)
    qed
  next
    case (Raises e1 s1)
    with r have "e1 = e" by (simp add: discard_tokens_def)
    with Raises show ?thesis by (simp add: next_token_raise)
  next
    case (OutOfFuel s9)
    with r show ?thesis by (simp add: discard_tokens_def)
  qed
qed

lemma fatalError_never_fatal:
  "fatalError n msg s \<noteq> Raises (RuntimeError (Text ''Fatal error: '' # msg')) s'"
proof
  assume r: "fatalError n msg s = Raises (RuntimeError (Text ''Fatal error: '' # msg')) s'"
  show False
  proof (cases "discard_tokens n (s\<lparr>chario := PrintErrorMessage msg (chario s)\<rparr>)")
    case (Returns u s1)
    then show False by (simp add: discard_tokens_no_return)
  next
    case (Raises e s1)
    then have "e = RuntimeError [Text ''Unexpected symbol'']" by (rule discard_tokens_raise)
    with Raises r show False by (simp add: fatalError_def)
  next
    case (OutOfFuel s9)
    with r show False by (simp add: fatalError_def)
  qed
qed

lemma newline_before_body_enough_fuel:
  "accept (Suc (Suc (Suc (Suc (Suc (Suc k)))))) Token_IS m newline_before_body =
     OutOfFuel
       \<lparr>chario =
          \<lparr>input = [],
             messages =
               [[Text ''expected [is] but '', Str (Token Token_NEWLINE None),
                 Text '' was detected'']]\<rparr>,
          token = Token ''EOF'' None, stdout = []\<rparr>"
  by (simp add: scanner_simps parser_simps discard_tokens_loop_at_EOF newline_before_body_def)

lemma newline_before_body_little_fuel:
  "n < 6 \<Longrightarrow> unfinished (accept n Token_IS m newline_before_body)"
proof -
  assume n: "n < 6"
  have "list_all (\<lambda>k. unfinished (accept k Token_IS [] newline_before_body)) [0..<6]"
    by code_simp
  with n have "unfinished (accept n Token_IS [] newline_before_body)"
    by (simp add: list_all_iff)
  moreover have "accept n Token_IS m newline_before_body =
      accept n Token_IS [] newline_before_body"
    by (simp add: accept_def)
  ultimately show ?thesis by simp
qed

lemma newline_before_body_unfinished:
  "unfinished (accept n Token_IS m newline_before_body)"
proof (cases "n < 6")
  case True
  then show ?thesis by (rule newline_before_body_little_fuel)
next
  case False
  then have "6 \<le> n" by simp
  then obtain k where "n = 6 + k" by (auto simp: le_iff_add)
  then have "n = Suc (Suc (Suc (Suc (Suc (Suc k)))))" by simp
  then show ?thesis
    by (simp only: newline_before_body_enough_fuel) (simp add: unfinished_def)
qed

lemma header_ends_line_early_accepted:
  "session (Suc (Suc (Suc (Suc k)))) header_ends_line_early =
     Returns ()
       \<lparr>chario = \<lparr>input = [], messages = []\<rparr>, token = Token ''EOF'' None, stdout = []\<rparr>"
  by (simp add: scanner_simps parser_simps header_ends_line_early_def)

text \<open>
  Claim C7 says that \<^verbatim>\<open>accept\<close> raises a fatal error, without skipping the newline,
  when the lookahead is a newline token and the expected category is one of \<^verbatim>\<open>is\<close>,
  \<^verbatim>\<open>loop\<close>, \<^verbatim>\<open>;\<close>, and that for every other expected category it skips the
  newline tokens at the lookahead before it compares. The second part holds. In the
  first case \<^verbatim>\<open>accept\<close> is the fatal-error routine, applied to the state as it
  stands, with the newline as the token the message names; but the routine sends the
  message and then calls \<^verbatim>\<open>discard_tokens\<close>, which replaces the newline lookahead by
  the next token, discards the lines that follow and never returns. The
  \<^verbatim>\<open>raise\<close> of \<^verbatim>\<open>fatalError\<close> is never reached: \<^verbatim>\<open>accept\<close> neither returns
  nor raises the fatal error, and with two lines of a body after the newline it reads
  both and runs forever at the end of the input. No session gets there, for the scanner
  returns no newline token: a header that ends its line before \<^verbatim>\<open>is\<close> is accepted
  without a diagnostic.
\<close>

theorem accept_newline_significance:
  "(code (token s) = Token_NEWLINE \<and> expected \<in> set line_terminating_tokens \<longrightarrow>
      accept n expected m s =
        fatalError n
          [Text (''expected ['' @ expected @ ''] but ''), Str (token s), Text '' was detected'']
          s)
   \<and> (expected \<notin> set line_terminating_tokens \<longrightarrow>
        accept n expected m s =
          run [ignore_newlines n,
               \<lambda>s'. if code (token s') \<noteq> expected
                     then fatalError n
                            [Text (''expected ['' @ expected @ ''] but ''), Str (token s),
                             Text '' was detected''] s'
                     else pass s',
               next_token] s)
   \<and> (ignore_newlines n s = Returns u s' \<longrightarrow> code (token s') \<noteq> Token_NEWLINE)
   \<and> set line_terminating_tokens = {''is'', ''loop'', '';''}
   \<and> fatalError n msg s \<noteq> Returns u s'
   \<and> fatalError n msg s \<noteq> Raises (RuntimeError (Text ''Fatal error: '' # msg')) s'
   \<and> (code (token s) = Token_NEWLINE \<and> expected \<in> set line_terminating_tokens \<longrightarrow>
        accept n expected m s \<noteq> Returns u s'
        \<and> accept n expected m s \<noteq> Raises (RuntimeError (Text ''Fatal error: '' # msg')) s')
   \<and> unfinished (accept n Token_IS m newline_before_body)
   \<and> accept (Suc (Suc (Suc (Suc (Suc (Suc k)))))) Token_IS m newline_before_body =
       OutOfFuel
         \<lparr>chario =
            \<lparr>input = [],
               messages =
                 [[Text ''expected [is] but '', Str (Token Token_NEWLINE None),
                   Text '' was detected'']]\<rparr>,
            token = Token ''EOF'' None, stdout = []\<rparr>
   \<and> session (Suc (Suc (Suc (Suc k)))) header_ends_line_early =
       Returns ()
         \<lparr>chario = \<lparr>input = [], messages = []\<rparr>, token = Token ''EOF'' None, stdout = []\<rparr>"
proof (intro conjI impI)
  assume "code (token s) = Token_NEWLINE \<and> expected \<in> set line_terminating_tokens"
  then show "accept n expected m s =
        fatalError n
          [Text (''expected ['' @ expected @ ''] but ''), Str (token s), Text '' was detected'']
          s"
    by (simp add: accept_newline_line_terminating)
next
  assume "expected \<notin> set line_terminating_tokens"
  then show "accept n expected m s =
          run [ignore_newlines n,
               \<lambda>s'. if code (token s') \<noteq> expected
                     then fatalError n
                            [Text (''expected ['' @ expected @ ''] but ''), Str (token s),
                             Text '' was detected''] s'
                     else pass s',
               next_token] s"
    by (rule accept_not_line_terminating)
next
  assume "ignore_newlines n s = Returns u s'"
  then show "code (token s') \<noteq> Token_NEWLINE"
    by (rule ignore_newlines_lookahead)
next
  show "set line_terminating_tokens = {''is'', ''loop'', '';''}"
    by (simp add: line_terminating_tokens_def Token_defs)
next
  show "fatalError n msg s \<noteq> Returns u s'"
    by (rule fatalError_no_return)
next
  show "fatalError n msg s \<noteq> Raises (RuntimeError (Text ''Fatal error: '' # msg')) s'"
    by (rule fatalError_never_fatal)
next
  assume "code (token s) = Token_NEWLINE \<and> expected \<in> set line_terminating_tokens"
  then show "accept n expected m s \<noteq> Returns u s'"
    by (simp add: accept_newline_line_terminating fatalError_no_return)
next
  assume "code (token s) = Token_NEWLINE \<and> expected \<in> set line_terminating_tokens"
  then show "accept n expected m s \<noteq> Raises (RuntimeError (Text ''Fatal error: '' # msg')) s'"
    by (simp add: accept_newline_line_terminating fatalError_never_fatal)
next
  show "unfinished (accept n Token_IS m newline_before_body)"
    by (rule newline_before_body_unfinished)
next
  show "accept (Suc (Suc (Suc (Suc (Suc (Suc k)))))) Token_IS m newline_before_body =
       OutOfFuel
         \<lparr>chario =
            \<lparr>input = [],
               messages =
                 [[Text ''expected [is] but '', Str (Token Token_NEWLINE None),
                   Text '' was detected'']]\<rparr>,
            token = Token ''EOF'' None, stdout = []\<rparr>"
    by (rule newline_before_body_enough_fuel)
next
  show "session (Suc (Suc (Suc (Suc k)))) header_ends_line_early =
       Returns ()
         \<lparr>chario = \<lparr>input = [], messages = []\<rparr>, token = Token ''EOF'' None, stdout = []\<rparr>"
    by (rule header_ends_line_early_accepted)
qed

text \<open>
  With a newline token as the lookahead and \<^verbatim>\<open>begin\<close> as the rest of the input:
  expecting \<^verbatim>\<open>is\<close> goes to the fatal-error routine with the newline named in the
  message; expecting \<^verbatim>\<open>begin\<close> skips the newline, matches and moves on. The
  fatal-error routine sends the message to the sink and then discards tokens,
  \<^verbatim>\<open>begin\<close> first, until the fuel is used up.
\<close>

theorem accept_newline_significance_witness:
  "accept 3 Token_IS []
     \<lparr>chario = \<lparr>input = ''begin'', messages = []\<rparr>, token = Token Token_NEWLINE None,
        stdout = []\<rparr> =
     fatalError 3
       [Text ''expected [is] but '', Str (Token Token_NEWLINE None), Text '' was detected'']
       \<lparr>chario = \<lparr>input = ''begin'', messages = []\<rparr>, token = Token Token_NEWLINE None,
          stdout = []\<rparr>
   \<and> accept 3 Token_BEGIN []
       \<lparr>chario = \<lparr>input = ''begin'', messages = []\<rparr>, token = Token Token_NEWLINE None,
          stdout = []\<rparr> =
       Returns ()
         \<lparr>chario = \<lparr>input = [], messages = []\<rparr>, token = Token ''EOF'' None, stdout = []\<rparr>
   \<and> fatalError 3
       [Text ''expected [is] but '', Str (Token Token_NEWLINE None), Text '' was detected'']
       \<lparr>chario = \<lparr>input = ''begin'', messages = []\<rparr>, token = Token Token_NEWLINE None,
          stdout = []\<rparr> =
       OutOfFuel
         \<lparr>chario =
            \<lparr>input = [],
               messages =
                 [[Text ''expected [is] but '', Str (Token Token_NEWLINE None),
                   Text '' was detected'']]\<rparr>,
            token = Token ''EOF'' None, stdout = []\<rparr>"
proof -
  let ?s = "\<lparr>chario = \<lparr>input = ''begin'', messages = []\<rparr>, token = Token Token_NEWLINE None,
              stdout = []\<rparr>"
  have diverges: "fatalError 3
       [Text ''expected [is] but '', Str (Token Token_NEWLINE None), Text '' was detected''] ?s =
       OutOfFuel
         \<lparr>chario =
            \<lparr>input = [],
               messages =
                 [[Text ''expected [is] but '', Str (Token Token_NEWLINE None),
                   Text '' was detected'']]\<rparr>,
            token = Token ''EOF'' None, stdout = []\<rparr>"
    by code_simp
  have lt: "code (token ?s) = Token_NEWLINE \<and> Token_IS \<in> set line_terminating_tokens"
    by (simp add: line_terminating_tokens_def)
  have other: "Token_BEGIN \<notin> set line_terminating_tokens"
    by (simp add: line_terminating_tokens_def Token_defs)
  have "accept 3 Token_IS [] ?s =
      fatalError 3
        [Text (''expected ['' @ Token_IS @ ''] but ''), Str (token ?s), Text '' was detected'']
        ?s"
    using accept_newline_significance[of ?s Token_IS 3 "[]", THEN conjunct1] lt by blast
  moreover have "accept 3 Token_BEGIN [] ?s =
      run [ignore_newlines 3,
           \<lambda>s'. if code (token s') \<noteq> Token_BEGIN
                 then fatalError 3
                        [Text (''expected ['' @ Token_BEGIN @ ''] but ''), Str (token ?s),
                         Text '' was detected''] s'
                 else pass s',
           next_token] ?s"
    using accept_newline_significance[of ?s Token_BEGIN 3 "[]", THEN conjunct2, THEN conjunct1]
      other by blast
  moreover have "run [ignore_newlines 3,
           \<lambda>s'. if code (token s') \<noteq> Token_BEGIN
                 then fatalError 3
                        [Text (''expected ['' @ Token_BEGIN @ ''] but ''), Str (token ?s),
                         Text '' was detected''] s'
                 else pass s',
           next_token] ?s =
      Returns ()
        \<lparr>chario = \<lparr>input = [], messages = []\<rparr>, token = Token ''EOF'' None, stdout = []\<rparr>"
    by code_simp
  ultimately show ?thesis using diverges by (simp add: Token_IS_def)
qed

text \<open>
  Claim C10. The argument \<^verbatim>\<open>error_message\<close> of \<^verbatim>\<open>accept\<close> has no effect: two calls
  that differ in it alone are the same. The message of a mismatch is built by
  \<^verbatim>\<open>accept\<close> itself from the expected code and the lookahead on entry, as
  \<^verbatim>\<open>expected [\<close>code\<^verbatim>\<open>] but \<close>token\<^verbatim>\<open> was detected\<close>, and it is that message the
  fatal-error routine is called with, which sends it to Chario's sink before anything
  else.
\<close>

theorem accept_error_message_unused:
  "accept n expected m1 s = accept n expected m2 s
   \<and> (code (token s) \<noteq> Token_NEWLINE \<and> code (token s) \<noteq> expected \<longrightarrow>
        accept (Suc n) expected m1 s =
          fatalError (Suc n)
            [Text (''expected ['' @ expected @ ''] but ''), Str (token s),
             Text '' was detected''] s)
   \<and> (code (token s) = Token_NEWLINE \<and> expected \<in> set line_terminating_tokens \<longrightarrow>
        accept n expected m1 s =
          fatalError n
            [Text (''expected ['' @ expected @ ''] but ''), Str (token s),
             Text '' was detected''] s)"
proof (intro conjI impI)
  show "accept n expected m1 s = accept n expected m2 s"
    by (simp add: accept_def)
next
  assume "code (token s) \<noteq> Token_NEWLINE \<and> code (token s) \<noteq> expected"
  then show "accept (Suc n) expected m1 s =
          fatalError (Suc n)
            [Text (''expected ['' @ expected @ ''] but ''), Str (token s),
             Text '' was detected''] s"
    by (simp add: accept_mismatch)
next
  assume "code (token s) = Token_NEWLINE \<and> expected \<in> set line_terminating_tokens"
  then show "accept n expected m1 s =
          fatalError n
            [Text (''expected ['' @ expected @ ''] but ''), Str (token s),
             Text '' was detected''] s"
    by (simp add: accept_newline_line_terminating)
qed

text \<open>
  With \<^verbatim>\<open>end\<close> as the lookahead where a semicolon is expected, the caller's text
  \<^verbatim>\<open>semicolon expected\<close> is not what is reported: the sink receives the message
  built by \<^verbatim>\<open>accept\<close>.
\<close>

theorem accept_error_message_unused_witness:
  "accept 4 Token_SEMICOLON [Text ''semicolon expected'']
     \<lparr>chario = \<lparr>input = '' Foo;'', messages = []\<rparr>, token = Token ''end'' None, stdout = []\<rparr> =
     accept 4 Token_SEMICOLON []
       \<lparr>chario = \<lparr>input = '' Foo;'', messages = []\<rparr>, token = Token ''end'' None, stdout = []\<rparr>
   \<and> accept 4 Token_SEMICOLON [Text ''semicolon expected'']
       \<lparr>chario = \<lparr>input = '' Foo;'', messages = []\<rparr>, token = Token ''end'' None, stdout = []\<rparr> =
       fatalError 4
         [Text ''expected [;] but '', Str (Token ''end'' None), Text '' was detected'']
         \<lparr>chario = \<lparr>input = '' Foo;'', messages = []\<rparr>, token = Token ''end'' None, stdout = []\<rparr>
   \<and> fatalError 4
       [Text ''expected [;] but '', Str (Token ''end'' None), Text '' was detected'']
       \<lparr>chario = \<lparr>input = '' Foo;'', messages = []\<rparr>, token = Token ''end'' None, stdout = []\<rparr> =
       OutOfFuel
         \<lparr>chario =
            \<lparr>input = [],
               messages =
                 [[Text ''expected [;] but '', Str (Token ''end'' None), Text '' was detected'']]\<rparr>,
            token = Token ''EOF'' None, stdout = []\<rparr>"
proof -
  let ?s = "\<lparr>chario = \<lparr>input = '' Foo;'', messages = []\<rparr>, token = Token ''end'' None,
              stdout = []\<rparr>"
  have sink: "fatalError 4
       [Text ''expected [;] but '', Str (Token ''end'' None), Text '' was detected''] ?s =
       OutOfFuel
         \<lparr>chario =
            \<lparr>input = [],
               messages =
                 [[Text ''expected [;] but '', Str (Token ''end'' None), Text '' was detected'']]\<rparr>,
            token = Token ''EOF'' None, stdout = []\<rparr>"
    by code_simp
  have ne: "code (token ?s) \<noteq> Token_NEWLINE \<and> code (token ?s) \<noteq> Token_SEMICOLON"
    by (simp add: Token_defs)
  have "accept 4 Token_SEMICOLON [Text ''semicolon expected''] ?s =
      accept 4 Token_SEMICOLON [] ?s"
    by (rule accept_error_message_unused[THEN conjunct1])
  moreover have "accept (Suc 3) Token_SEMICOLON [Text ''semicolon expected''] ?s =
      fatalError (Suc 3)
        [Text (''expected ['' @ Token_SEMICOLON @ ''] but ''), Str (token ?s),
         Text '' was detected''] ?s"
    using accept_error_message_unused
            [of 3 Token_SEMICOLON "[Text ''semicolon expected'']" ?s,
             THEN conjunct2, THEN conjunct1] ne
    by blast
  moreover have "Suc 3 = 4" by simp
  ultimately show ?thesis using sink by (simp add: Token_SEMICOLON_def)
qed

section \<open>Terms and factors\<close>

text \<open>Scanning an identifier, \<^verbatim>\<open>**\<close> and \<^verbatim>\<open>*\<close>, each after one space.\<close>

lemma char_isalpha_not_delimiter: "char_isalpha x \<Longrightarrow> not_delimiter x"
  by (auto simp: char_isalpha_def not_delimiter_def delimiters_def)

lemma until_first_failure:
  "list_all P xs \<Longrightarrow> \<not> P y \<Longrightarrow>
   takeWhile P (xs @ y # ys) = xs \<and> dropWhile P (xs @ y # ys) = y # ys"
  by (induction xs) auto

lemma next_token_identifier:
  assumes "char_isalpha x" "list_all not_delimiter w" "x # w \<notin> set reservedWords"
  shows "next_token
      \<lparr>chario = \<lparr>input = CHR '' '' # x # w @ CHR '' '' # rest, messages = ms\<rparr>, token = t,
         stdout = out\<rparr> =
     Returns ()
       \<lparr>chario = \<lparr>input = CHR '' '' # rest, messages = ms\<rparr>,
          token = Token ''id'' (Some (x # w)), stdout = out\<rparr>"
proof -
  have sp: "ignored (CHR '' '')" "\<not> not_delimiter (CHR '' '')"
    by (simp_all add: ignored_def ignoredCharacters_def not_delimiter_def delimiters_def)
  from assms(1) have "not_delimiter x" by (rule char_isalpha_not_delimiter)
  with assms(2) have all: "list_all not_delimiter (x # w)" by simp
  have tw: "takeWhile not_delimiter (x # w @ CHR '' '' # rest) = x # w"
    and dw: "dropWhile not_delimiter (x # w @ CHR '' '' # rest) = CHR '' '' # rest"
    using until_first_failure[OF all sp(2), of rest] by simp_all
  have "GetNextToken \<lparr>input = CHR '' '' # x # w @ CHR '' '' # rest, messages = ms\<rparr> =
      GetNextToken \<lparr>input = x # w @ CHR '' '' # rest, messages = ms\<rparr>"
    using sp(1) by (simp add: GetNextToken_ignored)
  also have "\<dots> = Return (Token ''id'' (Some (x # w))) \<lparr>input = CHR '' '' # rest, messages = ms\<rparr>"
    using GetNextToken_letter_led[OF assms(1), of "w @ CHR '' '' # rest" ms] tw dw assms(3)
    by simp
  finally show ?thesis by (simp add: next_token_def)
qed

lemma next_token_power:
  "next_token
      \<lparr>chario = \<lparr>input = '' ** '' @ rest, messages = ms\<rparr>, token = t, stdout = out\<rparr> =
     Returns ()
       \<lparr>chario = \<lparr>input = CHR '' '' # rest, messages = ms\<rparr>, token = Token ''**'' None,
          stdout = out\<rparr>"
proof -
  have "GetNextToken \<lparr>input = '' ** '' @ rest, messages = ms\<rparr> =
      GetNextToken \<lparr>input = ''** '' @ rest, messages = ms\<rparr>"
    by (simp add: GetNextToken_ignored ignored_def ignoredCharacters_def)
  also have "\<dots> = OperatorToken \<lparr>input = ''** '' @ rest, messages = ms\<rparr>"
    by (simp add: GetNextToken_dispatch[of _ "CHR ''*''" "''* '' @ rest"] ignored_def
          ignoredCharacters_def isalpha_def isdigit_def char_isalpha_def char_isdigit_def)
  also have "\<dots> = Return (Token ''**'' None) \<lparr>input = CHR '' '' # rest, messages = ms\<rparr>"
    by (simp add: OperatorToken_def GetNextChar_def PeekNextChar_def singleCharOperators_def
          possiblyDoubleCharOperators_def doubleCharOperators_def)
  finally show ?thesis by (simp add: next_token_def)
qed

lemma accept_identifier_before_power:
  "accept (Suc n) Token_ID m
      \<lparr>chario = \<lparr>input = '' ** '' @ rest, messages = ms\<rparr>, token = Token ''id'' v,
         stdout = out\<rparr> =
     Returns ()
       \<lparr>chario = \<lparr>input = CHR '' '' # rest, messages = ms\<rparr>, token = Token ''**'' None,
          stdout = out\<rparr>"
  using next_token_power[of rest ms "Token ''id'' v" out]
  by (simp add: accept_def pass_def line_terminating_tokens_def Token_defs)

lemma not_identifier_power:
  assumes "char_isalpha x" "list_all not_delimiter w" "x # w \<notin> set reservedWords"
  shows "factor (Suc (Suc (Suc (Suc n))))
      \<lparr>chario = \<lparr>input = CHR '' '' # x # w @ '' ** '' @ rest, messages = ms\<rparr>,
         token = Token ''not'' None, stdout = out\<rparr> =
     Returns ()
       \<lparr>chario = \<lparr>input = CHR '' '' # rest, messages = ms\<rparr>, token = Token ''**'' None,
          stdout = out\<rparr>"
proof -
  have "next_token
      \<lparr>chario = \<lparr>input = CHR '' '' # x # w @ CHR '' '' # ''** '' @ rest, messages = ms\<rparr>,
         token = Token ''not'' None, stdout = out\<rparr> =
     Returns ()
       \<lparr>chario = \<lparr>input = CHR '' '' # ''** '' @ rest, messages = ms\<rparr>,
          token = Token ''id'' (Some (x # w)), stdout = out\<rparr>"
    by (rule next_token_identifier[OF assms])
  then show ?thesis
    using accept_identifier_before_power[of n "[Text ''identifier expected'']" rest ms "Some (x # w)" out]
    by (simp add: Token_defs pass_def)
qed

lemma next_token_star:
  "next_token
      \<lparr>chario = \<lparr>input = '' * '' @ rest, messages = ms\<rparr>, token = t, stdout = out\<rparr> =
     Returns ()
       \<lparr>chario = \<lparr>input = CHR '' '' # rest, messages = ms\<rparr>, token = Token ''*'' None,
          stdout = out\<rparr>"
proof -
  have "GetNextToken \<lparr>input = '' * '' @ rest, messages = ms\<rparr> =
      GetNextToken \<lparr>input = ''* '' @ rest, messages = ms\<rparr>"
    by (simp add: GetNextToken_ignored ignored_def ignoredCharacters_def)
  also have "\<dots> = OperatorToken \<lparr>input = ''* '' @ rest, messages = ms\<rparr>"
    by (simp add: GetNextToken_dispatch[of _ "CHR ''*''" "'' '' @ rest"] ignored_def
          ignoredCharacters_def isalpha_def isdigit_def char_isalpha_def char_isdigit_def)
  also have "\<dots> = Return (Token ''*'' None) \<lparr>input = CHR '' '' # rest, messages = ms\<rparr>"
    by (simp add: OperatorToken_def GetNextChar_def PeekNextChar_def singleCharOperators_def
          possiblyDoubleCharOperators_def doubleCharOperators_def)
  finally show ?thesis by (simp add: next_token_def)
qed

lemma term_loop_never_iterates: "term_loop (Suc n) s = Returns () s"
  by (auto simp: pass_def)

lemma term_rule_is_factor: "term_rule (Suc (Suc n)) s = factor (Suc n) s"
  by (cases "factor (Suc n) s") (simp_all add: term_loop_never_iterates del: factor.simps term_loop.simps)

lemma identifier_star:
  "term_rule (Suc (Suc (Suc (Suc (Suc n)))))
      \<lparr>chario = \<lparr>input = '' * '' @ rest, messages = ms\<rparr>, token = Token ''id'' v,
         stdout = out\<rparr> =
     Returns ()
       \<lparr>chario = \<lparr>input = CHR '' '' # rest, messages = ms\<rparr>, token = Token ''*'' None,
          stdout = out\<rparr>"
  using next_token_star[of rest ms "Token ''id'' v" out]
  by (auto simp: accept_def pass_def line_terminating_tokens_def Token_defs)

text \<open>
  Claim C4 says that \<^verbatim>\<open>term\<close> consumes a whole chain of factors joined by
  multiplying operators. The loop of \<^verbatim>\<open>term\<close> tests the token object, not its code,
  against the table of operator codes, so its condition is false for every lookahead and
  its body never runs: \<^verbatim>\<open>term\<close> is one \<^verbatim>\<open>factor\<close>. From an identifier followed
  by \<^verbatim>\<open>*\<close> it returns with \<^verbatim>\<open>*\<close> as the lookahead and what follows unread, as on
  \<^verbatim>\<open>a * b\<close>.
\<close>

theorem term_stops_at_multiplying_operator:
  "term_loop (Suc n) s = Returns () s
   \<and> term_rule (Suc (Suc n)) s = factor (Suc n) s
   \<and> term_rule (Suc (Suc (Suc (Suc (Suc n)))))
         \<lparr>chario = \<lparr>input = '' * '' @ rest, messages = ms\<rparr>, token = Token ''id'' v,
            stdout = out\<rparr> =
       Returns ()
         \<lparr>chario = \<lparr>input = CHR '' '' # rest, messages = ms\<rparr>, token = Token ''*'' None,
            stdout = out\<rparr>
   \<and> on_source ''a * b'' (term_rule (Suc (Suc (Suc (Suc (Suc n)))))) =
       Returns ()
         \<lparr>chario = \<lparr>input = '' b'', messages = []\<rparr>, token = Token ''*'' None, stdout = []\<rparr>"
proof (intro conjI)
  show "term_loop (Suc n) s = Returns () s"
    by (rule term_loop_never_iterates)
  show "term_rule (Suc (Suc n)) s = factor (Suc n) s"
    by (rule term_rule_is_factor)
  show "term_rule (Suc (Suc (Suc (Suc (Suc n)))))
         \<lparr>chario = \<lparr>input = '' * '' @ rest, messages = ms\<rparr>, token = Token ''id'' v,
            stdout = out\<rparr> =
       Returns ()
         \<lparr>chario = \<lparr>input = CHR '' '' # rest, messages = ms\<rparr>, token = Token ''*'' None,
            stdout = out\<rparr>"
    by (rule identifier_star)
  show "on_source ''a * b'' (term_rule (Suc (Suc (Suc (Suc (Suc n)))))) =
       Returns ()
         \<lparr>chario = \<lparr>input = '' b'', messages = []\<rparr>, token = Token ''*'' None, stdout = []\<rparr>"
    by (simp add: scanner_simps parser_simps)
qed

text \<open>
  Claim C5, as the code has it. \<^verbatim>\<open>factor\<close> is one of two alternatives, chosen by the
  lookahead: \<^verbatim>\<open>not\<close> followed by a primary, or a primary followed by an optional
  \<^verbatim>\<open>**\<close> and primary. After \<^verbatim>\<open>not\<close> and its primary no \<^verbatim>\<open>**\<close> is looked for:
  from \<^verbatim>\<open>not\<close>, an identifier and \<^verbatim>\<open>**\<close>, \<^verbatim>\<open>factor\<close> returns with \<^verbatim>\<open>**\<close> as the
  lookahead and what follows unread.
\<close>

theorem factor_alternatives:
  "(code (token s) = Token_NOT \<longrightarrow> factor (Suc n) s = run [next_token, primary n] s)
   \<and> (code (token s) \<noteq> Token_NOT \<longrightarrow>
        factor (Suc n) s =
          run [primary n,
               \<lambda>s. if code (token s) = Token_SQUARE then run [next_token, primary n] s
                    else pass s] s)
   \<and> (char_isalpha x \<and> list_all not_delimiter w \<and> x # w \<notin> set reservedWords \<longrightarrow>
        factor (Suc (Suc (Suc (Suc n))))
          \<lparr>chario = \<lparr>input = CHR '' '' # x # w @ '' ** '' @ rest, messages = ms\<rparr>,
             token = Token ''not'' None, stdout = out\<rparr> =
        Returns ()
          \<lparr>chario = \<lparr>input = CHR '' '' # rest, messages = ms\<rparr>, token = Token ''**'' None,
             stdout = out\<rparr>)"
proof (intro conjI impI)
  assume "code (token s) = Token_NOT"
  then show "factor (Suc n) s = run [next_token, primary n] s" by simp
next
  assume "code (token s) \<noteq> Token_NOT"
  then show "factor (Suc n) s =
          run [primary n,
               \<lambda>s. if code (token s) = Token_SQUARE then run [next_token, primary n] s
                    else pass s] s" by simp
next
  assume "char_isalpha x \<and> list_all not_delimiter w \<and> x # w \<notin> set reservedWords"
  then show "factor (Suc (Suc (Suc (Suc n))))
          \<lparr>chario = \<lparr>input = CHR '' '' # x # w @ '' ** '' @ rest, messages = ms\<rparr>,
             token = Token ''not'' None, stdout = out\<rparr> =
        Returns ()
          \<lparr>chario = \<lparr>input = CHR '' '' # rest, messages = ms\<rparr>, token = Token ''**'' None,
             stdout = out\<rparr>"
    using not_identifier_power[of x w n rest ms out] by blast
qed

text \<open>
  Both alternatives at work: \<^verbatim>\<open>not a\<close> and \<^verbatim>\<open>a ** b\<close> are read to the end of the
  input, and from \<^verbatim>\<open>not flag ** 2\<close> only \<^verbatim>\<open>not flag\<close> is read.
\<close>

theorem factor_alternatives_witness:
  "factor (Suc 4)
     \<lparr>chario = \<lparr>input = '' a'', messages = []\<rparr>, token = Token ''not'' None, stdout = []\<rparr> =
     Returns ()
       \<lparr>chario = \<lparr>input = [], messages = []\<rparr>, token = Token ''EOF'' None, stdout = []\<rparr>
   \<and> factor (Suc 4)
       \<lparr>chario = \<lparr>input = '' ** b'', messages = []\<rparr>, token = Token ''id'' (Some ''a''),
          stdout = []\<rparr> =
       Returns ()
         \<lparr>chario = \<lparr>input = [], messages = []\<rparr>, token = Token ''EOF'' None, stdout = []\<rparr>
   \<and> factor (Suc (Suc (Suc (Suc 0))))
       \<lparr>chario = \<lparr>input = '' flag ** 2'', messages = []\<rparr>, token = Token ''not'' None,
          stdout = []\<rparr> =
       Returns ()
         \<lparr>chario = \<lparr>input = '' 2'', messages = []\<rparr>, token = Token ''**'' None, stdout = []\<rparr>"
proof -
  let ?s1 = "\<lparr>chario = \<lparr>input = '' a'', messages = []\<rparr>, token = Token ''not'' None,
               stdout = []\<rparr>"
  let ?s2 = "\<lparr>chario = \<lparr>input = '' ** b'', messages = []\<rparr>, token = Token ''id'' (Some ''a''),
               stdout = []\<rparr>"
  have "code (token ?s1) = Token_NOT" by (simp add: Token_NOT_def)
  with factor_alternatives[of ?s1 4, THEN conjunct1]
  have "factor (Suc 4) ?s1 = run [next_token, primary 4] ?s1" by blast
  moreover have "run [next_token, primary 4] ?s1 =
      Returns ()
        \<lparr>chario = \<lparr>input = [], messages = []\<rparr>, token = Token ''EOF'' None, stdout = []\<rparr>"
    by code_simp
  moreover have "code (token ?s2) \<noteq> Token_NOT" by (simp add: Token_NOT_def)
  with factor_alternatives[of ?s2 4, THEN conjunct2, THEN conjunct1]
  have "factor (Suc 4) ?s2 =
      run [primary 4,
           \<lambda>s. if code (token s) = Token_SQUARE then run [next_token, primary 4] s
                else pass s] ?s2" by blast
  moreover have "run [primary 4,
           \<lambda>s. if code (token s) = Token_SQUARE then run [next_token, primary 4] s
                else pass s] ?s2 =
      Returns ()
        \<lparr>chario = \<lparr>input = [], messages = []\<rparr>, token = Token ''EOF'' None, stdout = []\<rparr>"
    by code_simp
  moreover have "char_isalpha (CHR ''f'') \<and> list_all not_delimiter ''lag''
      \<and> ''flag'' \<notin> set reservedWords"
    by (simp add: char_isalpha_def not_delimiter_def delimiters_def reservedWords_def)
  with factor_alternatives
         [where x = "CHR ''f''" and w = "''lag''" and n = 0 and rest = "''2''" and ms = "[]"
            and out = "[]", THEN conjunct2, THEN conjunct2]
  have "factor (Suc (Suc (Suc (Suc 0))))
       \<lparr>chario = \<lparr>input = CHR '' '' # CHR ''f'' # ''lag'' @ '' ** '' @ ''2'', messages = []\<rparr>,
          token = Token ''not'' None, stdout = []\<rparr> =
       Returns ()
         \<lparr>chario = \<lparr>input = CHR '' '' # ''2'', messages = []\<rparr>, token = Token ''**'' None,
            stdout = []\<rparr>" by blast
  ultimately show ?thesis by simp
qed

text \<open>
  On \<^verbatim>\<open>not a ** b\<close> the factor ends after \<^verbatim>\<open>not a\<close>: \<^verbatim>\<open>**\<close> is the lookahead
  and \<^verbatim>\<open>b\<close> is unread.
\<close>

theorem factor_not_power_counterexample:
  "on_source ''not a ** b'' (factor 10) =
     Returns ()
       \<lparr>chario = \<lparr>input = '' b'', messages = []\<rparr>, token = Token ''**'' None, stdout = []\<rparr>"
  by code_simp

end
